theory Spec2Isabelle
  imports Main
begin

section \<open>The execution engine of the LLVM interpreter (Interpreter.cpp)\<close>

text \<open>
  A shallow embedding of \<^verbatim>\<open>src/LLVMInterpreter/Interpreter.cpp\<close>. The member functions of
  \<^verbatim>\<open>Interpreter\<close> become functions on an explicit interpreter state; a fatal abort
  (\<^verbatim>\<open>assert\<close>, \<^verbatim>\<open>llvm_unreachable\<close>, an exception of \<^verbatim>\<open>at\<close>) is the left summand of
  the result; the \<^verbatim>\<open>while (true)\<close> loop of \<^verbatim>\<open>runFunction\<close> takes fuel, one unit for
  each basic block it executes, and \<open>None\<close> is "no result within the fuel".
\<close>

subsection \<open>Values, constants and the IR\<close>

type_synonym Address = nat

text \<open>The identity of an \<^verbatim>\<open>llvm::Value\<close> (an argument or an instruction), of a basic block
  (its position in the function; the entry block \<^verbatim>\<open>f->begin()\<close> is block 0), and of a
  \<^verbatim>\<open>llvm::GlobalValue\<close> (the key of \<^verbatim>\<open>globalEnv\<close>).\<close>

type_synonym ValueId = nat
type_synonym BlockId = nat
type_synonym FunctionId = nat

datatype GlobalKey = VarKey nat | FunKey FunctionId

text \<open>Modelled from the spec: the class \<^verbatim>\<open>DynamicValue\<close> is not in \<^verbatim>\<open>Interpreter.cpp\<close>.
  By section 3 a runtime value is the explicit "undefined" marker, an integer, whose value
  the engine reads for branches and switches, or another value that it only moves; the
  model has addresses as the other values.\<close>

datatype DynamicValue = UndefValue | IntValue int | PointerValue Address

datatype Fatal =
    VectorTypeNotSupported
  | NullFunction
  | InvalidArgumentCount
  | MissingPhiEntry
  | ReachedUnreachable
  | UnsupportedTerminator
  | NoTerminator
  | DanglingBlock
  | DanglingFrame
  | EmptyStack
  | UnknownGlobal
  | UnboundValue
  | NotAnInteger
  | BadAddress
  | BadDeallocation
  | UnsupportedInstruction

datatype Type = IntegerTy nat | PointerTy Type | ArrayTy nat Type | VectorTy nat Type | FunctionTy

fun isVectorTy :: "Type \<Rightarrow> bool" where
  "isVectorTy (VectorTy n t) = True"
| "isVectorTy t = False"

datatype Constant = ConstantInt int | GlobalAddr GlobalKey | UndefConstant

datatype Value = ConstantValue Constant | LocalValue ValueId

datatype BinOp = Add | Sub | Mul

text \<open>The instructions. \<open>PHINode p incoming\<close> lists (predecessor block, incoming value)
  pairs; \<open>BranchInst dest0 None\<close> is unconditional and
  \<open>BranchInst dest0 (Some (cond, dest1))\<close> conditional; \<open>SwitchInst cond defaultDest cases\<close>
  has its cases in declaration order.\<close>

datatype Instruction =
    PHINode ValueId "(BlockId \<times> Value) list"
  | AllocaInst ValueId nat
  | CallInst ValueId FunctionId "Value list"
  | BinaryOperator ValueId BinOp Value Value
  | BranchInst BlockId "(Value \<times> BlockId) option"
  | ReturnInst "Value option"
  | SwitchInst Value BlockId "(int \<times> BlockId) list"
  | UnreachableInst
  | IndirectBrInst
  | InvokeInst
  | ResumeInst

fun isPHINode :: "Instruction \<Rightarrow> bool" where
  "isPHINode (PHINode p incoming) = True"
| "isPHINode i = False"

fun isTerminator :: "Instruction \<Rightarrow> bool" where
  "isTerminator (PHINode p incoming) = False"
| "isTerminator (AllocaInst d n) = False"
| "isTerminator (CallInst d f args) = False"
| "isTerminator (BinaryOperator d bop a b) = False"
| "isTerminator i = True"

type_synonym BasicBlock = "Instruction list"

record Function =
  fnId :: FunctionId
  fnFunctionType :: Type
  fnArgs :: "ValueId list"
  isVarArg :: bool
  blocks :: "BasicBlock list"

definition isDeclaration :: "Function \<Rightarrow> bool" where
  "isDeclaration f = (blocks f = [])"

definition arg_size :: "Function \<Rightarrow> nat" where
  "arg_size f = length (fnArgs f)"

text \<open>A global variable: its identity, the type of the value it holds
  (\<^verbatim>\<open>getValueType()\<close>), and its initializer when it has one.\<close>

record GlobalVariable =
  gvId :: nat
  gvValueType :: Type
  gvInitializer :: "Constant option"

text \<open>\<^verbatim>\<open>GlobalValue::getType()\<close>: the type of a global value as a value is the pointer
  to what it holds, for a global variable and for a function alike.\<close>

definition gvType :: "GlobalVariable \<Rightarrow> Type" where
  "gvType g = PointerTy (gvValueType g)"

definition fnType :: "Function \<Rightarrow> Type" where
  "fnType f = PointerTy (fnFunctionType f)"

text \<open>The module, with the type-size query of its data layout
  (\<^verbatim>\<open>dataLayout.getTypeAllocSize\<close>) as a field.\<close>

record Module =
  globals :: "GlobalVariable list"
  functionList :: "Function list"
  getTypeAllocSize :: "Type \<Rightarrow> nat"

definition lookupFunction :: "Module \<Rightarrow> FunctionId \<Rightarrow> Function option" where
  "lookupFunction m fid = find (\<lambda>f. fnId f = fid) (functionList m)"

definition getBlock :: "Function \<Rightarrow> BlockId \<Rightarrow> BasicBlock option" where
  "getBlock f b = (if b < length (blocks f) then Some (blocks f ! b) else None)"

text \<open>\<^verbatim>\<open>BasicBlock::getTerminator\<close>: the last instruction when it is a terminator, null
  otherwise.\<close>

definition getTerminator :: "BasicBlock \<Rightarrow> Instruction option" where
  "getTerminator bb = (if bb \<noteq> [] \<and> isTerminator (last bb) then Some (last bb) else None)"

subsection \<open>Memory, frames and the interpreter state\<close>

text \<open>Modelled from the spec: the class of \<^verbatim>\<open>stackMem\<close> and \<^verbatim>\<open>globalMem\<close> is not in
  \<^verbatim>\<open>Interpreter.cpp\<close>. It is the bump allocator of section 4.1 and 9: a high-water mark,
  \<open>allocate\<close> returns the mark and advances it, \<open>deallocate\<close> moves it back and releases
  the cells above it, \<open>clear\<close> empties the space, and writing to an address that is not
  allocated is fatal.\<close>

record Memory =
  mark :: nat
  cells :: "Address \<rightharpoonup> DynamicValue"

definition emptyMemory :: Memory where
  "emptyMemory = \<lparr>mark = 0, cells = Map.empty\<rparr>"

definition allocate :: "nat \<Rightarrow> Memory \<Rightarrow> Address \<times> Memory" where
  "allocate n mem = (mark mem, mem\<lparr>mark := mark mem + n\<rparr>)"

definition deallocate :: "nat \<Rightarrow> Memory \<Rightarrow> Fatal + Memory" where
  "deallocate n mem =
     (if mark mem < n then Inl BadDeallocation
      else Inr \<lparr>mark = mark mem - n,
                cells = (\<lambda>a. if a < mark mem - n then cells mem a else None)\<rparr>)"

definition clear :: "Memory \<Rightarrow> Memory" where
  "clear mem = emptyMemory"

definition writeMem :: "Address \<Rightarrow> DynamicValue \<Rightarrow> Memory \<Rightarrow> Fatal + Memory" where
  "writeMem a v mem =
     (if a < mark mem then Inr (mem\<lparr>cells := (cells mem)(a \<mapsto> v)\<rparr>) else Inl BadAddress)"

text \<open>Modelled from the spec: the class \<^verbatim>\<open>StackFrame\<close> is not in \<^verbatim>\<open>Interpreter.cpp\<close>. By
  section 3 a frame holds its function, a binding table in which insertion overwrites, the
  variadic overflow sequence, and the bytes it has claimed from the stack allocator.\<close>

record StackFrame =
  getFunction :: Function
  bindings :: "ValueId \<rightharpoonup> DynamicValue"
  varargs :: "DynamicValue list"
  allocationSize :: nat

definition newFrame :: "Function \<Rightarrow> StackFrame" where
  "newFrame f = \<lparr>getFunction = f, bindings = Map.empty, varargs = [], allocationSize = 0\<rparr>"

definition insertBinding :: "ValueId \<Rightarrow> DynamicValue \<Rightarrow> StackFrame \<Rightarrow> StackFrame" where
  "insertBinding k v fr = fr\<lparr>bindings := (bindings fr)(k \<mapsto> v)\<rparr>"

definition insertVararg :: "DynamicValue \<Rightarrow> StackFrame \<Rightarrow> StackFrame" where
  "insertVararg v fr = fr\<lparr>varargs := varargs fr @ [v]\<rparr>"

definition increaseAllocationSize :: "nat \<Rightarrow> StackFrame \<Rightarrow> StackFrame" where
  "increaseAllocationSize n fr = fr\<lparr>allocationSize := allocationSize fr + n\<rparr>"

text \<open>The state of an \<^verbatim>\<open>Interpreter\<close>. The call stack is a list with the current frame
  last. A \<^verbatim>\<open>StackFrame&\<close> held by the code is the position of that frame in the list, so
  that a frame reference and "the current frame" are different things, as in the code.
  \<^verbatim>\<open>globalEnv\<close> and \<^verbatim>\<open>funPtrMap\<close> are the two maps that \<^verbatim>\<open>evaluateGlobals\<close> fills with
  \<^verbatim>\<open>insert\<close>.\<close>

record Interpreter =
  stackMem :: Memory
  globalMem :: Memory
  globalEnv :: "GlobalKey \<rightharpoonup> Address"
  funPtrMap :: "Address \<rightharpoonup> FunctionId"
  stack :: "StackFrame list"

type_synonym FrameRef = nat

definition getFrame :: "FrameRef \<Rightarrow> Interpreter \<Rightarrow> Fatal + StackFrame" where
  "getFrame fi s = (if fi < length (stack s) then Inr (stack s ! fi) else Inl DanglingFrame)"

definition putFrame :: "FrameRef \<Rightarrow> StackFrame \<Rightarrow> Interpreter \<Rightarrow> Interpreter" where
  "putFrame fi fr s = s\<lparr>stack := (stack s)[fi := fr]\<rparr>"

text \<open>Modelled from the spec: the class of \<^verbatim>\<open>stack\<close> is not in \<^verbatim>\<open>Interpreter.cpp\<close>. By
  section 2 it is a LIFO of frames: \<open>createFrame\<close> pushes a fresh frame and returns a
  reference to it, \<open>popFrame\<close> removes the current frame.\<close>

definition createFrame :: "Function \<Rightarrow> Interpreter \<Rightarrow> FrameRef \<times> Interpreter" where
  "createFrame f s = (length (stack s), s\<lparr>stack := stack s @ [newFrame f]\<rparr>)"

definition getCurrentFrame :: "Interpreter \<Rightarrow> Fatal + StackFrame" where
  "getCurrentFrame s = (if stack s = [] then Inl EmptyStack else Inr (last (stack s)))"

definition popFrame :: "Interpreter \<Rightarrow> Interpreter" where
  "popFrame s = s\<lparr>stack := butlast (stack s)\<rparr>"

text \<open>The insertion of \<^verbatim>\<open>globalEnv.insert(std::make_pair(k, v))\<close>: a key that is already
  present keeps its entry.\<close>

definition map_insert :: "('k \<rightharpoonup> 'v) \<Rightarrow> 'k \<Rightarrow> 'v \<Rightarrow> ('k \<rightharpoonup> 'v)" where
  "map_insert t k v = (case t k of None \<Rightarrow> t(k \<mapsto> v) | Some old \<Rightarrow> t)"

subsection \<open>Operands and constants\<close>

text \<open>Modelled from the spec: \<^verbatim>\<open>evaluateConstant\<close> and \<^verbatim>\<open>evaluateOperand\<close> are not in
  \<^verbatim>\<open>Interpreter.cpp\<close>. By section 6 a constant is evaluated without a frame (the address
  of a global is looked up in \<^verbatim>\<open>globalEnv\<close>) and any other operand is read from the
  bindings of the given frame; reading what was never bound is fatal (section 7).\<close>

fun evaluateConstant :: "Interpreter \<Rightarrow> Constant \<Rightarrow> Fatal + DynamicValue" where
  "evaluateConstant s (ConstantInt n) = Inr (IntValue n)"
| "evaluateConstant s (GlobalAddr k) =
     (case globalEnv s k of None \<Rightarrow> Inl UnknownGlobal | Some a \<Rightarrow> Inr (PointerValue a))"
| "evaluateConstant s UndefConstant = Inr UndefValue"

fun evaluateOperand :: "Interpreter \<Rightarrow> FrameRef \<Rightarrow> Value \<Rightarrow> Fatal + DynamicValue" where
  "evaluateOperand s frame (ConstantValue c) = evaluateConstant s c"
| "evaluateOperand s frame (LocalValue x) =
     (case getFrame frame s of
        Inl e \<Rightarrow> Inl e
      | Inr fr \<Rightarrow> (case bindings fr x of None \<Rightarrow> Inl UnboundValue | Some d \<Rightarrow> Inr d))"

fun evaluateOperands :: "Interpreter \<Rightarrow> FrameRef \<Rightarrow> Value list \<Rightarrow> Fatal + DynamicValue list" where
  "evaluateOperands s frame [] = Inr []"
| "evaluateOperands s frame (v # vs) =
     (case evaluateOperand s frame v of
        Inl e \<Rightarrow> Inl e
      | Inr d \<Rightarrow> (case evaluateOperands s frame vs of Inl e \<Rightarrow> Inl e | Inr ds \<Rightarrow> Inr (d # ds)))"

text \<open>Modelled from the spec: \<^verbatim>\<open>getAsIntValue().getInt()\<close> and \<^verbatim>\<open>getBoolValue\<close> are
  not in \<^verbatim>\<open>Interpreter.cpp\<close>. Asking a value that is not an integer for its integer is
  fatal (section 7); the truth value of an integer is "not zero" (section 4.4).\<close>

fun getAsIntValue :: "DynamicValue \<Rightarrow> Fatal + int" where
  "getAsIntValue (IntValue n) = Inr n"
| "getAsIntValue d = Inl NotAnInteger"

definition getBoolValue :: "int \<Rightarrow> bool" where
  "getBoolValue n = (n \<noteq> 0)"

subsection \<open>Allocation and program initialization\<close>

text \<open>\<^verbatim>\<open>Interpreter::allocateStackMem\<close> (lines 16-20).\<close>

definition allocateStackMem :: "FrameRef \<Rightarrow> nat \<Rightarrow> Interpreter \<Rightarrow> Fatal + (Address \<times> Interpreter)" where
  "allocateStackMem frame n s =
     (case getFrame frame s of
        Inl e \<Rightarrow> Inl e
      | Inr fr \<Rightarrow>
          (let s1 = putFrame frame (increaseAllocationSize n fr) s;
               (a, mem) = allocate n (stackMem s1)
           in Inr (a, s1\<lparr>stackMem := mem\<rparr>)))"

text \<open>\<^verbatim>\<open>Interpreter::allocateGlobalMem\<close> (lines 22-30), given \<^verbatim>\<open>gv->getType()\<close>, which the
  callers pass as \<open>gvType\<close> of a global variable and \<open>fnType\<close> of a function.\<close>

definition allocateGlobalMem :: "Module \<Rightarrow> Type \<Rightarrow> Interpreter \<Rightarrow> Fatal + (Address \<times> Interpreter)" where
  "allocateGlobalMem m globalType s =
     (if isVectorTy globalType then Inl VectorTypeNotSupported
      else (let globalSize = getTypeAllocSize m globalType;
                (a, mem) = allocate globalSize (globalMem s)
            in Inr (a, s\<lparr>globalMem := mem\<rparr>)))"

text \<open>The three loops of \<^verbatim>\<open>Interpreter::evaluateGlobals\<close> (lines 36-40, 42-47, 50-55).\<close>

fun allocateGlobals :: "Module \<Rightarrow> GlobalVariable list \<Rightarrow> Interpreter \<Rightarrow> Fatal + Interpreter" where
  "allocateGlobals m [] s = Inr s"
| "allocateGlobals m (globalVal # rest) s =
     (case allocateGlobalMem m (gvType globalVal) s of
        Inl e \<Rightarrow> Inl e
      | Inr (globalAddr, s1) \<Rightarrow>
          allocateGlobals m rest
            (s1\<lparr>globalEnv := map_insert (globalEnv s1) (VarKey (gvId globalVal)) globalAddr\<rparr>))"

fun initializeGlobals :: "GlobalVariable list \<Rightarrow> Interpreter \<Rightarrow> Fatal + Interpreter" where
  "initializeGlobals [] s = Inr s"
| "initializeGlobals (globalVal # rest) s =
     (case globalEnv s (VarKey (gvId globalVal)) of
        None \<Rightarrow> Inl UnknownGlobal
      | Some globalAddr \<Rightarrow>
          (case gvInitializer globalVal of
             None \<Rightarrow> initializeGlobals rest s
           | Some init \<Rightarrow>
               (case evaluateConstant s init of
                  Inl e \<Rightarrow> Inl e
                | Inr v \<Rightarrow>
                    (case writeMem globalAddr v (globalMem s) of
                       Inl e \<Rightarrow> Inl e
                     | Inr mem \<Rightarrow> initializeGlobals rest (s\<lparr>globalMem := mem\<rparr>)))))"

fun allocateFunctions :: "Module \<Rightarrow> Function list \<Rightarrow> Interpreter \<Rightarrow> Fatal + Interpreter" where
  "allocateFunctions m [] s = Inr s"
| "allocateFunctions m (f # rest) s =
     (case allocateGlobalMem m (fnType f) s of
        Inl e \<Rightarrow> Inl e
      | Inr (funAddr, s1) \<Rightarrow>
          allocateFunctions m rest
            (s1\<lparr>globalEnv := map_insert (globalEnv s1) (FunKey (fnId f)) funAddr,
                funPtrMap := map_insert (funPtrMap s1) funAddr (fnId f)\<rparr>))"

definition evaluateGlobals :: "Module \<Rightarrow> Interpreter \<Rightarrow> Fatal + Interpreter" where
  "evaluateGlobals m s =
     (case allocateGlobals m (globals m) (s\<lparr>globalMem := clear (globalMem s)\<rparr>) of
        Inl e \<Rightarrow> Inl e
      | Inr s1 \<Rightarrow>
          (case initializeGlobals (globals m) s1 of
             Inl e \<Rightarrow> Inl e
           | Inr s2 \<Rightarrow> allocateFunctions m (functionList m) s2))"

subsection \<open>Frames: call entry and return\<close>

text \<open>The argument loops of \<^verbatim>\<open>Interpreter::callFunction\<close> (lines 75-83): the fixed
  parameters take \<^verbatim>\<open>argValues[i]\<close> with \<open>i\<close> counting up from 0, the remaining
  arguments, from \<^verbatim>\<open>argValues.begin() + i\<close> on, become the varargs.\<close>

fun bindFixedArgs :: "ValueId list \<Rightarrow> DynamicValue list \<Rightarrow> nat \<Rightarrow> StackFrame \<Rightarrow> nat \<times> StackFrame" where
  "bindFixedArgs [] argValues i fr = (i, fr)"
| "bindFixedArgs (itr # rest) argValues i fr =
     bindFixedArgs rest argValues (Suc i) (insertBinding itr (argValues ! i) fr)"

text \<open>Lines 66-83 of \<^verbatim>\<open>callFunction\<close>: the new frame, the assertion on the number of
  arguments, and the two argument loops.\<close>

definition setupCalleeFrame :: "Function \<Rightarrow> DynamicValue list \<Rightarrow> Interpreter \<Rightarrow> Fatal + (FrameRef \<times> Interpreter)" where
  "setupCalleeFrame f argValues s =
     (let (calleeFrame, s1) = createFrame f s in
      if \<not> (length argValues = arg_size f \<or> (length argValues > arg_size f \<and> isVarArg f))
      then Inl InvalidArgumentCount
      else (case getFrame calleeFrame s1 of
              Inl e \<Rightarrow> Inl e
            | Inr fr \<Rightarrow>
                (let (i, fr1) = bindFixedArgs (fnArgs f) argValues 0 fr;
                     fr2 = foldl (\<lambda>fr v. insertVararg v fr) fr1 (drop i argValues)
                 in Inr (calleeFrame, putFrame calleeFrame fr2 s1))))"

text \<open>\<^verbatim>\<open>Interpreter::popStack\<close> (lines 88-93).\<close>

definition popStack :: "Interpreter \<Rightarrow> Fatal + Interpreter" where
  "popStack s =
     (case getCurrentFrame s of
        Inl e \<Rightarrow> Inl e
      | Inr fr \<Rightarrow>
          (case deallocate (allocationSize fr) (stackMem s) of
             Inl e \<Rightarrow> Inl e
           | Inr mem \<Rightarrow> Inr (popFrame (s\<lparr>stackMem := mem\<rparr>))))"

subsection \<open>Entering a basic block\<close>

text \<open>\<^verbatim>\<open>PHINode::getBasicBlockIndex\<close>: the first incoming entry for the block, if any.\<close>

fun getBasicBlockIndex :: "(BlockId \<times> Value) list \<Rightarrow> BlockId \<Rightarrow> nat option" where
  "getBasicBlockIndex [] b = None"
| "getBasicBlockIndex (entry # rest) b =
     (if fst entry = b then Some 0 else map_option Suc (getBasicBlockIndex rest b))"

definition getIncomingValue :: "(BlockId \<times> Value) list \<Rightarrow> nat \<Rightarrow> Value" where
  "getIncomingValue incoming idx = snd (incoming ! idx)"

text \<open>The first loop of \<^verbatim>\<open>switchToNewBasicBlock\<close> (lines 108-119): it stops at the first
  instruction that is not a PHI node, and evaluates every incoming value in the state
  it was given, appending to \<^verbatim>\<open>phiValueCache\<close>.\<close>

fun cachePhiValues :: "Interpreter \<Rightarrow> FrameRef \<Rightarrow> BlockId \<Rightarrow> Instruction list
    \<Rightarrow> (ValueId \<times> DynamicValue) list \<Rightarrow> Fatal + (ValueId \<times> DynamicValue) list" where
  "cachePhiValues s frame prevBB [] phiValueCache = Inr phiValueCache"
| "cachePhiValues s frame prevBB (PHINode phiNode incoming # rest) phiValueCache =
     (case getBasicBlockIndex incoming prevBB of
        None \<Rightarrow> Inl MissingPhiEntry
      | Some idx \<Rightarrow>
          (case evaluateOperand s frame (getIncomingValue incoming idx) of
             Inl e \<Rightarrow> Inl e
           | Inr incomingVal \<Rightarrow>
               cachePhiValues s frame prevBB rest (phiValueCache @ [(phiNode, incomingVal)])))"
| "cachePhiValues s frame prevBB (inst # rest) phiValueCache = Inr phiValueCache"

text \<open>The second loop (lines 121-124).\<close>

definition commitPhiValues :: "(ValueId \<times> DynamicValue) list \<Rightarrow> StackFrame \<Rightarrow> StackFrame" where
  "commitPhiValues phiValueCache fr =
     foldl (\<lambda>fr updatePair. insertBinding (fst updatePair) (snd updatePair) fr) fr phiValueCache"

text \<open>\<^verbatim>\<open>switchToNewBasicBlock\<close> (lines 102-125); the caller continues with \<open>destBB\<close> as the
  current block.\<close>

definition switchToNewBasicBlock :: "Function \<Rightarrow> FrameRef \<Rightarrow> BlockId \<Rightarrow> BlockId \<Rightarrow> Interpreter \<Rightarrow> Fatal + Interpreter" where
  "switchToNewBasicBlock f frame prevBB destBB s =
     (case getBlock f destBB of
        None \<Rightarrow> Inl DanglingBlock
      | Some bb \<Rightarrow>
          (case cachePhiValues s frame prevBB bb [] of
             Inl e \<Rightarrow> Inl e
           | Inr phiValueCache \<Rightarrow>
               (case getFrame frame s of
                  Inl e \<Rightarrow> Inl e
                | Inr fr \<Rightarrow> Inr (putFrame frame (commitPhiValues phiValueCache fr) s))))"

subsection \<open>Terminators\<close>

text \<open>The destination of a branch (lines 151-157).\<close>

definition branchDest :: "Interpreter \<Rightarrow> FrameRef \<Rightarrow> BlockId \<Rightarrow> (Value \<times> BlockId) option \<Rightarrow> Fatal + BlockId" where
  "branchDest s frame dest0 conditional =
     (case conditional of
        None \<Rightarrow> Inr dest0
      | Some (cond, dest1) \<Rightarrow>
          (case evaluateOperand s frame cond of
             Inl e \<Rightarrow> Inl e
           | Inr condVal \<Rightarrow>
               (case getAsIntValue condVal of
                  Inl e \<Rightarrow> Inl e
                | Inr n \<Rightarrow> Inr (if \<not> getBoolValue n then dest1 else dest0))))"

text \<open>The scan of the case list of a switch (lines 183-192): the default destination,
  replaced by the successor of the first case whose value equals the condition.\<close>

fun switchDest :: "int \<Rightarrow> BlockId \<Rightarrow> (int \<times> BlockId) list \<Rightarrow> BlockId" where
  "switchDest condInt destBB [] = destBB"
| "switchDest condInt destBB (caseItr # rest) =
     (if condInt = fst caseItr then snd caseItr else switchDest condInt destBB rest)"

text \<open>The return case (lines 165-174): the value is evaluated, then the stack is popped.\<close>

definition returnFrom :: "FrameRef \<Rightarrow> Value option \<Rightarrow> Interpreter \<Rightarrow> Fatal + (DynamicValue \<times> Interpreter)" where
  "returnFrom frame returnValue s =
     (case (case returnValue of None \<Rightarrow> Inr UndefValue | Some v \<Rightarrow> evaluateOperand s frame v) of
        Inl e \<Rightarrow> Inl e
      | Inr retVal \<Rightarrow>
          (case popStack s of Inl e \<Rightarrow> Inl e | Inr s1 \<Rightarrow> Inr (retVal, s1)))"

subsection \<open>The execution loop and the invocation protocol\<close>

text \<open>The external-call boundary \<^verbatim>\<open>callExternalFunction\<close> is a parameter: any function
  from the callee, the arguments and the interpreter state to a result.\<close>

type_synonym External = "Function \<Rightarrow> DynamicValue list \<Rightarrow> Interpreter \<Rightarrow> Fatal + (DynamicValue \<times> Interpreter)"

type_synonym Outcome = "(Fatal + (DynamicValue \<times> Interpreter)) option"

text \<open>Modelled from the spec: the instruction kinds of \<^verbatim>\<open>evaluateInstruction\<close>, which
  is not in \<^verbatim>\<open>Interpreter.cpp\<close>. By section 6 an instruction acts on the given frame
  and the address spaces: it binds its result in the frame; a stack allocation goes
  through \<^verbatim>\<open>allocateStackMem\<close> and yields the address.\<close>

definition bindResult :: "FrameRef \<Rightarrow> ValueId \<Rightarrow> DynamicValue \<Rightarrow> Interpreter \<Rightarrow> Fatal + Interpreter" where
  "bindResult frame d v s =
     (case getFrame frame s of
        Inl e \<Rightarrow> Inl e
      | Inr fr \<Rightarrow> Inr (putFrame frame (insertBinding d v fr) s))"

fun evalBinOp :: "BinOp \<Rightarrow> int \<Rightarrow> int \<Rightarrow> int" where
  "evalBinOp Add a b = a + b"
| "evalBinOp Sub a b = a - b"
| "evalBinOp Mul a b = a * b"

definition evaluateBinaryOperator :: "FrameRef \<Rightarrow> ValueId \<Rightarrow> BinOp \<Rightarrow> Value \<Rightarrow> Value \<Rightarrow> Interpreter \<Rightarrow> Fatal + Interpreter" where
  "evaluateBinaryOperator frame d bop a b s =
     (case evaluateOperand s frame a of
        Inl e \<Rightarrow> Inl e
      | Inr x \<Rightarrow>
          (case evaluateOperand s frame b of
             Inl e \<Rightarrow> Inl e
           | Inr y \<Rightarrow>
               (case getAsIntValue x of
                  Inl e \<Rightarrow> Inl e
                | Inr i \<Rightarrow>
                    (case getAsIntValue y of
                       Inl e \<Rightarrow> Inl e
                     | Inr j \<Rightarrow> bindResult frame d (IntValue (evalBinOp bop i j)) s))))"

definition evaluateAlloca :: "FrameRef \<Rightarrow> ValueId \<Rightarrow> nat \<Rightarrow> Interpreter \<Rightarrow> Fatal + Interpreter" where
  "evaluateAlloca frame d n s =
     (case allocateStackMem frame n s of
        Inl e \<Rightarrow> Inl e
      | Inr (a, s1) \<Rightarrow> bindResult frame d (PointerValue a) s1)"

text \<open>
  Modelled from the spec: \<^verbatim>\<open>evaluateInstruction\<close>, the last function of this group, is
  not in \<^verbatim>\<open>Interpreter.cpp\<close>. By sections 5 and 6 it acts on the given frame and the
  two address spaces, and a call instruction evaluates its arguments in that frame,
  performs a nested \<^verbatim>\<open>callFunction\<close> and binds the result. The model has three kinds of
  instruction: a stack allocation, a call, and integer arithmetic.

  The other functions are those of the source: \<^verbatim>\<open>callFunction\<close> (lines 58-86),
  \<^verbatim>\<open>runFunction\<close> (lines 95-100), its loop (lines 127-144, with the loop over the
  instructions of lines 136-142 as \<open>evaluateInstructions\<close>) and the dispatch on the
  terminator (lines 145-205). Only \<open>runLoop\<close> uses up fuel, one unit for each block.
\<close>

function (sequential) callFunction :: "nat \<Rightarrow> Module \<Rightarrow> External \<Rightarrow> FunctionId \<Rightarrow> DynamicValue list \<Rightarrow> Interpreter \<Rightarrow> Outcome"
and runFunction :: "nat \<Rightarrow> Module \<Rightarrow> External \<Rightarrow> FrameRef \<Rightarrow> Interpreter \<Rightarrow> Outcome"
and runLoop :: "nat \<Rightarrow> Module \<Rightarrow> External \<Rightarrow> FrameRef \<Rightarrow> Function \<Rightarrow> BlockId \<Rightarrow> Interpreter \<Rightarrow> Outcome"
and dispatchTerminator :: "nat \<Rightarrow> Module \<Rightarrow> External \<Rightarrow> FrameRef \<Rightarrow> Function \<Rightarrow> BlockId \<Rightarrow> Instruction \<Rightarrow> Interpreter \<Rightarrow> Outcome"
and evaluateInstructions :: "nat \<Rightarrow> Module \<Rightarrow> External \<Rightarrow> FrameRef \<Rightarrow> Instruction list \<Rightarrow> Interpreter \<Rightarrow> (Fatal + Interpreter) option"
and evaluateInstruction :: "nat \<Rightarrow> Module \<Rightarrow> External \<Rightarrow> FrameRef \<Rightarrow> Instruction \<Rightarrow> Interpreter \<Rightarrow> (Fatal + Interpreter) option"
where
  "callFunction n m ext fid argValues s =
     (case lookupFunction m fid of
        None \<Rightarrow> Some (Inl NullFunction)
      | Some f \<Rightarrow>
          if isDeclaration f then Some (ext f argValues s)
          else (case setupCalleeFrame f argValues s of
                  Inl e \<Rightarrow> Some (Inl e)
                | Inr (calleeFrame, s1) \<Rightarrow> runFunction n m ext calleeFrame s1))"
| "runFunction n m ext frame s =
     (case getFrame frame s of
        Inl e \<Rightarrow> Some (Inl e)
      | Inr fr \<Rightarrow> runLoop n m ext frame (getFunction fr) 0 s)"
| "runLoop 0 m ext frame f curBB s = None"
| "runLoop (Suc n) m ext frame f curBB s =
     (case getBlock f curBB of
        None \<Rightarrow> Some (Inl DanglingBlock)
      | Some bb \<Rightarrow>
          (case evaluateInstructions n m ext frame
                  (takeWhile (\<lambda>i. \<not> isTerminator i) (dropWhile isPHINode bb)) s of
             None \<Rightarrow> None
           | Some (Inl e) \<Rightarrow> Some (Inl e)
           | Some (Inr s1) \<Rightarrow>
               (case getTerminator bb of
                  None \<Rightarrow> Some (Inl NoTerminator)
                | Some termInst \<Rightarrow> dispatchTerminator n m ext frame f curBB termInst s1)))"
| "dispatchTerminator n m ext frame f curBB termInst s =
     (case termInst of
        BranchInst dest0 conditional \<Rightarrow>
          (case branchDest s frame dest0 conditional of
             Inl e \<Rightarrow> Some (Inl e)
           | Inr destBB \<Rightarrow>
               (case switchToNewBasicBlock f frame curBB destBB s of
                  Inl e \<Rightarrow> Some (Inl e)
                | Inr s1 \<Rightarrow> runLoop n m ext frame f destBB s1))
      | ReturnInst returnValue \<Rightarrow> Some (returnFrom frame returnValue s)
      | SwitchInst cond defaultDest cases \<Rightarrow>
          (case evaluateOperand s frame cond of
             Inl e \<Rightarrow> Some (Inl e)
           | Inr condVal \<Rightarrow>
               (case getAsIntValue condVal of
                  Inl e \<Rightarrow> Some (Inl e)
                | Inr condInt \<Rightarrow>
                    (case switchToNewBasicBlock f frame curBB
                            (switchDest condInt defaultDest cases) s of
                       Inl e \<Rightarrow> Some (Inl e)
                     | Inr s1 \<Rightarrow>
                         runLoop n m ext frame f (switchDest condInt defaultDest cases) s1)))
      | UnreachableInst \<Rightarrow> Some (Inl ReachedUnreachable)
      | _ \<Rightarrow> Some (Inl UnsupportedTerminator))"
| "evaluateInstructions n m ext frame [] s = Some (Inr s)"
| "evaluateInstructions n m ext frame (inst # rest) s =
     (case evaluateInstruction n m ext frame inst s of
        None \<Rightarrow> None
      | Some (Inl e) \<Rightarrow> Some (Inl e)
      | Some (Inr s1) \<Rightarrow> evaluateInstructions n m ext frame rest s1)"
| "evaluateInstruction k m ext frame inst s =
     (case inst of
        AllocaInst d n \<Rightarrow> Some (evaluateAlloca frame d n s)
      | BinaryOperator d bop a b \<Rightarrow> Some (evaluateBinaryOperator frame d bop a b s)
      | CallInst d callee args \<Rightarrow>
          (case evaluateOperands s frame args of
             Inl e \<Rightarrow> Some (Inl e)
           | Inr argValues \<Rightarrow>
               (case callFunction k m ext callee argValues s of
                  None \<Rightarrow> None
                | Some (Inl e) \<Rightarrow> Some (Inl e)
                | Some (Inr (v, s1)) \<Rightarrow> Some (bindResult frame d v s1)))
      | _ \<Rightarrow> Some (Inl UnsupportedInstruction))"

  by pat_completeness auto


termination
  by (relation "measures
        [\<lambda>x. case x of
                Inl (Inl (n, r)) \<Rightarrow> n
              | Inl (Inr (Inl (n, r))) \<Rightarrow> n
              | Inl (Inr (Inr (n, r))) \<Rightarrow> n
              | Inr (Inl (n, r)) \<Rightarrow> n
              | Inr (Inr (Inl (n, r))) \<Rightarrow> n
              | Inr (Inr (Inr (n, r))) \<Rightarrow> n,
         \<lambda>x. case x of
                Inl (Inl c) \<Rightarrow> 3
              | Inl (Inr (Inl c)) \<Rightarrow> 2
              | Inl (Inr (Inr c)) \<Rightarrow> 0
              | Inr (Inl c) \<Rightarrow> 1
              | Inr (Inr (Inl (n, m, ext, frame, insts, s))) \<Rightarrow> 5 + length insts
              | Inr (Inr (Inr c)) \<Rightarrow> 4]")
     auto

declare callFunction.simps [simp del] runFunction.simps [simp del]
  dispatchTerminator.simps [simp del] evaluateInstruction.simps [simp del]

subsection \<open>The switch of the specification\<close>


subsection \<open>Example programs\<close>

definition emptyInterpreter :: Interpreter where
  "emptyInterpreter = \<lparr>stackMem = emptyMemory, globalMem = emptyMemory, globalEnv = Map.empty,
      funPtrMap = Map.empty, stack = []\<rparr>"

text \<open>An external boundary that returns the undefined value and leaves the state alone.\<close>

definition noExternal :: External where
  "noExternal f argValues s = Inr (UndefValue, s)"




subsection \<open>Invariants of the call stack\<close>

definition extPreservesStack :: "External \<Rightarrow> bool" where
  "extPreservesStack ext =
     (\<forall>f argValues s v s'. ext f argValues s = Inr (v, s') \<longrightarrow>
        stack s' = stack s \<and> mark (stackMem s') = mark (stackMem s))"

definition callsBalanced :: "nat \<Rightarrow> Module \<Rightarrow> External \<Rightarrow> bool" where
  "callsBalanced n m ext =
     (\<forall>fid argValues s v s1. callFunction n m ext fid argValues s = Some (Inr (v, s1))
        \<longrightarrow> stack s1 = stack s \<and> mark (stackMem s1) = mark (stackMem s))"

definition loopPops :: "nat \<Rightarrow> Module \<Rightarrow> External \<Rightarrow> bool" where
  "loopPops n m ext =
     (\<forall>pre f b s fr v s1. stack s = pre @ [fr]
        \<longrightarrow> runLoop n m ext (length pre) f b s = Some (Inr (v, s1))
        \<longrightarrow> stack s1 = pre \<and> mark (stackMem s1) + allocationSize fr = mark (stackMem s))"

fun definedId :: "Instruction \<Rightarrow> ValueId option" where
  "definedId (PHINode p incoming) = Some p"
| "definedId (AllocaInst d n) = Some d"
| "definedId (CallInst d callee args) = Some d"
| "definedId (BinaryOperator d bop a b) = Some d"
| "definedId i = None"

text \<open>The bytes an instruction requests from the stack allocator.\<close>

fun requestedBytes :: "Instruction \<Rightarrow> nat" where
  "requestedBytes (AllocaInst d n) = n"
| "requestedBytes i = 0"

text \<open>What the frame on top of \<open>pre\<close> may change while it runs: bindings of the values
  in \<open>D\<close>, and \<open>k\<close> more bytes claimed, by the frame and on the stack allocator alike.\<close>

definition frameStep :: "StackFrame list \<Rightarrow> StackFrame \<Rightarrow> ValueId set \<Rightarrow> nat \<Rightarrow> Interpreter \<Rightarrow> Interpreter \<Rightarrow> bool" where
  "frameStep pre fr D k s s1 =
     (\<exists>fr1. stack s1 = pre @ [fr1] \<and> getFunction fr1 = getFunction fr
        \<and> varargs fr1 = varargs fr
        \<and> allocationSize fr1 = allocationSize fr + k
        \<and> mark (stackMem s1) = mark (stackMem s) + k
        \<and> (\<forall>p. p \<notin> D \<longrightarrow> bindings fr1 p = bindings fr p))"

text \<open>A function that calls another one, which allocates on the stack.\<close>

definition leafFn :: Function where
  "leafFn = \<lparr>fnId = 1, fnFunctionType = FunctionTy, fnArgs = [], isVarArg = False,
     blocks = [[AllocaInst 0 8, AllocaInst 1 16,
                ReturnInst (Some (ConstantValue (ConstantInt 5)))]]\<rparr>"

definition callerFn :: Function where
  "callerFn = \<lparr>fnId = 0, fnFunctionType = FunctionTy, fnArgs = [], isVarArg = False,
     blocks = [[AllocaInst 0 4, CallInst 1 1 [], ReturnInst (Some (LocalValue 1))]]\<rparr>"

definition nestedModule :: Module where
  "nestedModule = \<lparr>globals = [], functionList = [callerFn, leafFn], getTypeAllocSize = (\<lambda>t. 8)\<rparr>"

definition leafState :: Interpreter where
  "leafState = emptyInterpreter\<lparr>stack := [newFrame leafFn]\<rparr>"

text \<open>A function that allocates, computes a local value and returns it.\<close>

definition returnFn :: Function where
  "returnFn = \<lparr>fnId = 0, fnFunctionType = FunctionTy, fnArgs = [], isVarArg = False,
     blocks = [[AllocaInst 0 8,
                BinaryOperator 1 Add (ConstantValue (ConstantInt 2)) (ConstantValue (ConstantInt 3)),
                ReturnInst (Some (LocalValue 1))]]\<rparr>"

definition returnModule :: Module where
  "returnModule = \<lparr>globals = [], functionList = [returnFn], getTypeAllocSize = (\<lambda>t. 8)\<rparr>"

definition returnState :: Interpreter where
  "returnState = emptyInterpreter\<lparr>stack := [newFrame returnFn]\<rparr>"

text \<open>A function whose entry block begins with a PHI node and returns its value.\<close>

definition entryPhiFn :: Function where
  "entryPhiFn = \<lparr>fnId = 0, fnFunctionType = FunctionTy, fnArgs = [], isVarArg = False,
     blocks = [[PHINode 7 [(0, ConstantValue (ConstantInt 5))],
                BinaryOperator 1 Add (ConstantValue (ConstantInt 2)) (ConstantValue (ConstantInt 3)),
                ReturnInst (Some (LocalValue 7))]]\<rparr>"

definition entryPhiModule :: Module where
  "entryPhiModule = \<lparr>globals = [], functionList = [entryPhiFn], getTypeAllocSize = (\<lambda>t. 8)\<rparr>"

definition entryPhiState :: Interpreter where
  "entryPhiState = emptyInterpreter\<lparr>stack := [newFrame entryPhiFn]\<rparr>"

text \<open>A variadic function with two fixed parameters, and a declaration without a body.\<close>

definition variadicFn :: Function where
  "variadicFn = \<lparr>fnId = 0, fnFunctionType = FunctionTy, fnArgs = [0, 1], isVarArg = True,
     blocks = [[ReturnInst None]]\<rparr>"

definition declFn :: Function where
  "declFn = \<lparr>fnId = 1, fnFunctionType = FunctionTy, fnArgs = [], isVarArg = False, blocks = []\<rparr>"

definition variadicModule :: Module where
  "variadicModule = \<lparr>globals = [], functionList = [variadicFn, declFn],
     getTypeAllocSize = (\<lambda>t. 8)\<rparr>"

subsection \<open>Program initialization: sizes and example modules\<close>

definition gvSize :: "Module \<Rightarrow> GlobalVariable \<Rightarrow> nat" where
  "gvSize m g = getTypeAllocSize m (gvType g)"

text \<open>A module before and after a global variable is added in front of the one it had.\<close>

definition keptGlobal :: GlobalVariable where
  "keptGlobal = \<lparr>gvId = 1, gvValueType = IntegerTy 64, gvInitializer = None\<rparr>"

definition addedGlobal :: GlobalVariable where
  "addedGlobal = \<lparr>gvId = 0, gvValueType = IntegerTy 64, gvInitializer = None\<rparr>"

definition keptFn :: Function where
  "keptFn = \<lparr>fnId = 0, fnFunctionType = FunctionTy, fnArgs = [], isVarArg = False,
     blocks = [[ReturnInst None]]\<rparr>"

definition moduleBefore :: Module where
  "moduleBefore = \<lparr>globals = [keptGlobal], functionList = [keptFn],
     getTypeAllocSize = (\<lambda>t. 8)\<rparr>"

definition moduleAfter :: Module where
  "moduleAfter = \<lparr>globals = [addedGlobal, keptGlobal], functionList = [keptFn],
     getTypeAllocSize = (\<lambda>t. 8)\<rparr>"




text \<open>A data layout: integers take their bytes, a pointer 8 bytes, arrays and vectors
  the bytes of their elements (a function type has no size and is never asked for).\<close>

fun typeAllocSize :: "Type \<Rightarrow> nat" where
  "typeAllocSize (IntegerTy n) = (n + 7) div 8"
| "typeAllocSize (PointerTy t) = 8"
| "typeAllocSize (ArrayTy n t) = n * typeAllocSize t"
| "typeAllocSize (VectorTy n t) = n * typeAllocSize t"
| "typeAllocSize FunctionTy = 0"

text \<open>A module with a 32-bit integer, a vector of four of them and an array of a
  hundred.\<close>

definition wordGlobal :: GlobalVariable where
  "wordGlobal = \<lparr>gvId = 0, gvValueType = IntegerTy 32, gvInitializer = Some (ConstantInt 42)\<rparr>"

definition vectorGlobal :: GlobalVariable where
  "vectorGlobal = \<lparr>gvId = 1, gvValueType = VectorTy 4 (IntegerTy 32), gvInitializer = None\<rparr>"

definition tableGlobal :: GlobalVariable where
  "tableGlobal = \<lparr>gvId = 2, gvValueType = ArrayTy 100 (IntegerTy 32), gvInitializer = None\<rparr>"

definition typedModule :: Module where
  "typedModule = \<lparr>globals = [wordGlobal, vectorGlobal, tableGlobal], functionList = [],
     getTypeAllocSize = typeAllocSize\<rparr>"

text \<open>Three globals, the first initialized with the address of the second; a module that
  declares the second before the first, and the module after a third global has been
  added and the two have changed places.\<close>

definition globalA :: GlobalVariable where
  "globalA = \<lparr>gvId = 0, gvValueType = PointerTy (IntegerTy 32),
     gvInitializer = Some (GlobalAddr (VarKey 1))\<rparr>"

definition globalB :: GlobalVariable where
  "globalB = \<lparr>gvId = 1, gvValueType = IntegerTy 32, gvInitializer = Some (ConstantInt 42)\<rparr>"

definition globalN :: GlobalVariable where
  "globalN = \<lparr>gvId = 2, gvValueType = IntegerTy 32, gvInitializer = Some (ConstantInt 7)\<rparr>"

definition backwardModule :: Module where
  "backwardModule = \<lparr>globals = [globalB, globalA], functionList = [],
     getTypeAllocSize = typeAllocSize\<rparr>"

definition forwardModule :: Module where
  "forwardModule = \<lparr>globals = [globalA, globalN, globalB], functionList = [],
     getTypeAllocSize = typeAllocSize\<rparr>"

section \<open>Properties\<close>

subsection \<open>The switch terminator\<close>




subsection \<open>The frame on top of the stack\<close>

lemma getFrame_top: "stack s = pre @ [fr] \<Longrightarrow> getFrame (length pre) s = Inr fr"
  by (simp add: getFrame_def)

lemma putFrame_top: "stack s = pre @ [fr] \<Longrightarrow> putFrame (length pre) fr' s = s\<lparr>stack := pre @ [fr']\<rparr>"
  by (simp add: putFrame_def)

lemma bindResult_top:
  "stack s = pre @ [fr] \<Longrightarrow>
   bindResult (length pre) d v s = Inr (s\<lparr>stack := pre @ [insertBinding d v fr]\<rparr>)"
  by (simp add: bindResult_def getFrame_top putFrame_top)

lemma allocateStackMem_top:
  "stack s = pre @ [fr] \<Longrightarrow>
   allocateStackMem (length pre) n s =
     Inr (mark (stackMem s),
          s\<lparr>stack := pre @ [increaseAllocationSize n fr],
            stackMem := (stackMem s)\<lparr>mark := mark (stackMem s) + n\<rparr>\<rparr>)"
  by (simp add: allocateStackMem_def getFrame_top putFrame_top allocate_def)

lemma evaluateAlloca_step:
  assumes "stack s = pre @ [fr]" "evaluateAlloca (length pre) d n s = Inr s1"
  shows "frameStep pre fr {d} n s s1"
  using assms
  by (auto simp: evaluateAlloca_def allocateStackMem_top bindResult_top frameStep_def
      increaseAllocationSize_def insertBinding_def)

lemma evaluateBinaryOperator_step:
  assumes "stack s = pre @ [fr]" "evaluateBinaryOperator (length pre) d bop a b s = Inr s1"
  shows "frameStep pre fr {d} 0 s s1"
  using assms
  by (auto simp: evaluateBinaryOperator_def bindResult_top frameStep_def insertBinding_def
      split: sum.splits)

lemma evaluateInstruction_step:
  assumes call: "callsBalanced n m ext"
    and top: "stack s = pre @ [fr]"
    and run: "evaluateInstruction n m ext (length pre) inst s = Some (Inr s1)"
  shows "frameStep pre fr (set_option (definedId inst)) (requestedBytes inst) s s1"
proof (cases inst)
  case (AllocaInst d k)
  with top run show ?thesis by (simp add: evaluateInstruction.simps evaluateAlloca_step)
next
  case (BinaryOperator d bop a b)
  with top run show ?thesis by (simp add: evaluateInstruction.simps evaluateBinaryOperator_step)
next
  case (CallInst d callee args)
  with run obtain argValues v s2 where
    c: "callFunction n m ext callee argValues s = Some (Inr (v, s2))"
    and b: "bindResult (length pre) d v s2 = Inr s1"
    by (auto simp: evaluateInstruction.simps split: sum.splits option.splits)
  from call c top have top2: "stack s2 = pre @ [fr]" and mk: "mark (stackMem s2) = mark (stackMem s)"
    unfolding callsBalanced_def by auto
  from b top2 have "s1 = s2\<lparr>stack := pre @ [insertBinding d v fr]\<rparr>"
    by (simp add: bindResult_top)
  with mk CallInst show ?thesis
    by (simp add: frameStep_def insertBinding_def)
qed (use run in \<open>simp_all add: evaluateInstruction.simps\<close>)

lemma frameStep_trans:
  assumes "frameStep pre fr D j s s1" "stack s1 = pre @ [fr1]" "frameStep pre fr1 E k s1 s2"
  shows "frameStep pre fr (D \<union> E) (j + k) s s2"
  using assms by (auto simp: frameStep_def)

lemma evaluateInstructions_step:
  assumes call: "callsBalanced n m ext"
    and top: "stack s = pre @ [fr]"
    and run: "evaluateInstructions n m ext (length pre) insts s = Some (Inr s1)"
  shows "frameStep pre fr (\<Union>i\<in>set insts. set_option (definedId i))
           (sum_list (map requestedBytes insts)) s s1"
  using top run
proof (induction insts arbitrary: s fr)
  case Nil
  then show ?case by (simp add: frameStep_def)
next
  case (Cons inst rest)
  from Cons.prems(2) obtain s2 where
    one: "evaluateInstruction n m ext (length pre) inst s = Some (Inr s2)"
    and more: "evaluateInstructions n m ext (length pre) rest s2 = Some (Inr s1)"
    by (auto split: option.splits sum.splits)
  from evaluateInstruction_step [OF call Cons.prems(1) one]
  have st: "frameStep pre fr (set_option (definedId inst)) (requestedBytes inst) s s2" .
  then obtain fr2 where top2: "stack s2 = pre @ [fr2]"
    by (auto simp: frameStep_def)
  from Cons.IH [OF top2 more] frameStep_trans [OF st top2]
  show ?case by simp
qed


lemma commitPhiValues_fields:
  "getFunction (commitPhiValues c fr) = getFunction fr
   \<and> varargs (commitPhiValues c fr) = varargs fr
   \<and> allocationSize (commitPhiValues c fr) = allocationSize fr"
  unfolding commitPhiValues_def
  by (induction c arbitrary: fr) (simp_all add: insertBinding_def)

lemma switchToNewBasicBlock_top:
  assumes "stack s = pre @ [fr]" "switchToNewBasicBlock f (length pre) prevBB destBB s = Inr s1"
  shows "\<exists>c. s1 = s\<lparr>stack := pre @ [commitPhiValues c fr]\<rparr>"
  using assms
  by (auto simp: switchToNewBasicBlock_def getFrame_top putFrame_top split: option.splits sum.splits)

lemma popStack_top:
  assumes "stack s = pre @ [fr]" "popStack s = Inr s1"
  shows "stack s1 = pre \<and> mark (stackMem s1) + allocationSize fr = mark (stackMem s)"
  using assms
  by (auto simp: popStack_def getCurrentFrame_def deallocate_def popFrame_def split: if_splits)

lemma returnFrom_top:
  assumes "stack s = pre @ [fr]" "returnFrom (length pre) returnValue s = Inr (v, s1)"
  shows "stack s1 = pre \<and> mark (stackMem s1) + allocationSize fr = mark (stackMem s)"
  using assms popStack_top [of s pre fr s1]
  by (auto simp: returnFrom_def split: sum.splits)

lemma dispatchTerminator_pops:
  assumes loop: "loopPops n m ext"
    and top: "stack s = pre @ [fr]"
    and run: "dispatchTerminator n m ext (length pre) f curBB termInst s = Some (Inr (v, s1))"
  shows "stack s1 = pre \<and> mark (stackMem s1) + allocationSize fr = mark (stackMem s)"
proof (cases termInst)
  case (BranchInst dest0 conditional)
  with run obtain destBB s2 where
    sw: "switchToNewBasicBlock f (length pre) curBB destBB s = Inr s2"
    and lp: "runLoop n m ext (length pre) f destBB s2 = Some (Inr (v, s1))"
    by (auto simp: dispatchTerminator.simps split: sum.splits)
  from switchToNewBasicBlock_top [OF top sw] obtain c where
    s2: "s2 = s\<lparr>stack := pre @ [commitPhiValues c fr]\<rparr>" ..
  then have "stack s2 = pre @ [commitPhiValues c fr]" by simp
  with loop lp have "stack s1 = pre
      \<and> mark (stackMem s1) + allocationSize (commitPhiValues c fr) = mark (stackMem s2)"
    unfolding loopPops_def by blast
  with s2 show ?thesis
    by (simp add: commitPhiValues_fields)
next
  case (ReturnInst returnValue)
  with run have "returnFrom (length pre) returnValue s = Inr (v, s1)"
    by (simp add: dispatchTerminator.simps)
  from returnFrom_top [OF top this] show ?thesis .
next
  case (SwitchInst cond defaultDest cases)
  with run obtain destBB s2 where
    sw: "switchToNewBasicBlock f (length pre) curBB destBB s = Inr s2"
    and lp: "runLoop n m ext (length pre) f destBB s2 = Some (Inr (v, s1))"
    by (auto simp: dispatchTerminator.simps split: sum.splits)
  from switchToNewBasicBlock_top [OF top sw] obtain c where
    s2: "s2 = s\<lparr>stack := pre @ [commitPhiValues c fr]\<rparr>" ..
  then have "stack s2 = pre @ [commitPhiValues c fr]" by simp
  with loop lp have "stack s1 = pre
      \<and> mark (stackMem s1) + allocationSize (commitPhiValues c fr) = mark (stackMem s2)"
    unfolding loopPops_def by blast
  with s2 show ?thesis
    by (simp add: commitPhiValues_fields)
qed (use run in \<open>simp_all add: dispatchTerminator.simps\<close>)

lemma runLoop_pops:
  assumes call: "callsBalanced n m ext"
    and loop: "loopPops n m ext"
    and top: "stack s = pre @ [fr]"
    and run: "runLoop (Suc n) m ext (length pre) f curBB s = Some (Inr (v, s1))"
  shows "stack s1 = pre \<and> mark (stackMem s1) + allocationSize fr = mark (stackMem s)"
proof -
  from run obtain bb s2 termInst where
    body: "evaluateInstructions n m ext (length pre)
             (takeWhile (\<lambda>i. \<not> isTerminator i) (dropWhile isPHINode bb)) s = Some (Inr s2)"
    and disp: "dispatchTerminator n m ext (length pre) f curBB termInst s2 = Some (Inr (v, s1))"
    by (auto split: option.splits sum.splits)
  from evaluateInstructions_step [OF call top body] obtain fr2 where
    top2: "stack s2 = pre @ [fr2]"
    and mk: "mark (stackMem s2) + allocationSize fr = mark (stackMem s) + allocationSize fr2"
    by (auto simp: frameStep_def)
  from dispatchTerminator_pops [OF loop top2 disp] mk show ?thesis
    by simp
qed

lemma runLoop_pops_Suc:
  assumes "callsBalanced n m ext" "loopPops n m ext"
  shows "loopPops (Suc n) m ext"
  unfolding loopPops_def using runLoop_pops [OF assms] by blast

lemma bindFixedArgs_fields:
  "getFunction (snd (bindFixedArgs ps argValues i fr)) = getFunction fr
   \<and> allocationSize (snd (bindFixedArgs ps argValues i fr)) = allocationSize fr
   \<and> varargs (snd (bindFixedArgs ps argValues i fr)) = varargs fr
   \<and> fst (bindFixedArgs ps argValues i fr) = i + length ps"
  by (induction ps arbitrary: i fr) (simp_all add: insertBinding_def)

lemma foldl_insertVararg_fields:
  "getFunction (foldl (\<lambda>fr v. insertVararg v fr) fr vs) = getFunction fr
   \<and> allocationSize (foldl (\<lambda>fr v. insertVararg v fr) fr vs) = allocationSize fr
   \<and> bindings (foldl (\<lambda>fr v. insertVararg v fr) fr vs) = bindings fr
   \<and> varargs (foldl (\<lambda>fr v. insertVararg v fr) fr vs) = varargs fr @ vs"
  by (induction vs arbitrary: fr) (simp_all add: insertVararg_def)

lemma setupCalleeFrame_eq:
  "setupCalleeFrame f argValues s =
     (if length argValues = arg_size f \<or> (arg_size f < length argValues \<and> isVarArg f)
      then Inr (length (stack s),
                s\<lparr>stack := stack s @
                   [foldl (\<lambda>fr v. insertVararg v fr)
                      (snd (bindFixedArgs (fnArgs f) argValues 0 (newFrame f)))
                      (drop (arg_size f) argValues)]\<rparr>)
      else Inl InvalidArgumentCount)"
  by (simp add: setupCalleeFrame_def createFrame_def getFrame_def putFrame_def Let_def
      case_prod_beta bindFixedArgs_fields arg_size_def)

lemma setupCalleeFrame_pushes:
  assumes "setupCalleeFrame f argValues s = Inr (calleeFrame, s1)"
  shows "calleeFrame = length (stack s) \<and> stackMem s1 = stackMem s
         \<and> (\<exists>fr. stack s1 = stack s @ [fr] \<and> allocationSize fr = 0 \<and> getFunction fr = f)"
  using assms
  by (auto simp: setupCalleeFrame_eq bindFixedArgs_fields foldl_insertVararg_fields newFrame_def
      split: if_splits)

lemma callFunction_balanced_aux:
  assumes extOk: "extPreservesStack ext"
    and loop: "loopPops n m ext"
    and run: "callFunction n m ext fid argValues s = Some (Inr (v, s1))"
  shows "stack s1 = stack s \<and> mark (stackMem s1) = mark (stackMem s)"
proof -
  from run obtain f where f: "lookupFunction m fid = Some f"
    by (auto simp: callFunction.simps split: option.splits)
  show ?thesis
  proof (cases "isDeclaration f")
    case True
    with run f have "ext f argValues s = Inr (v, s1)"
      by (simp add: callFunction.simps)
    with extOk show ?thesis
      unfolding extPreservesStack_def by blast
  next
    case False
    with run f obtain calleeFrame s2 where
      su: "setupCalleeFrame f argValues s = Inr (calleeFrame, s2)"
      and rf: "runFunction n m ext calleeFrame s2 = Some (Inr (v, s1))"
      by (auto simp: callFunction.simps split: sum.splits)
    from setupCalleeFrame_pushes [OF su] obtain fr where
      cf: "calleeFrame = length (stack s)" and sm: "stackMem s2 = stackMem s"
      and top: "stack s2 = stack s @ [fr]" and z: "allocationSize fr = 0"
      by auto
    from rf cf top have "runLoop n m ext (length (stack s)) (getFunction fr) 0 s2 = Some (Inr (v, s1))"
      by (simp add: runFunction.simps getFrame_top)
    with loop top have "stack s1 = stack s
        \<and> mark (stackMem s1) + allocationSize fr = mark (stackMem s2)"
      unfolding loopPops_def by blast
    with z sm show ?thesis by simp
  qed
qed

lemma callsBalanced_from_loop:
  assumes "extPreservesStack ext" "loopPops n m ext"
  shows "callsBalanced n m ext"
  unfolding callsBalanced_def using callFunction_balanced_aux [OF assms] by blast

lemma engine_balanced:
  assumes extOk: "extPreservesStack ext"
  shows "callsBalanced n m ext \<and> loopPops n m ext"
proof (induction n)
  case 0
  have "loopPops 0 m ext"
    by (simp add: loopPops_def)
  with callsBalanced_from_loop [OF extOk] show ?case
    by blast
next
  case (Suc n)
  then have "loopPops (Suc n) m ext"
    by (simp add: runLoop_pops_Suc)
  with callsBalanced_from_loop [OF extOk] show ?case
    by blast
qed



lemma popStack_shape:
  assumes "popStack s = Inr s3"
  shows "stack s = stack s3 @ [last (stack s)]
         \<and> mark (stackMem s) = mark (stackMem s3) + allocationSize (last (stack s))"
  using assms
  by (auto simp: popStack_def getCurrentFrame_def deallocate_def popFrame_def split: if_splits)

lemma allocateStackMem_adds:
  assumes "allocateStackMem frame k s = Inr (a, s5)"
  shows "frame < length (stack s) \<and> a = mark (stackMem s)
         \<and> stack s5 = (stack s)[frame := increaseAllocationSize k (stack s ! frame)]
         \<and> mark (stackMem s5) = mark (stackMem s) + k"
  using assms
  by (auto simp: allocateStackMem_def getFrame_def putFrame_def allocate_def split: if_splits)

lemma noExternal_preserves: "extPreservesStack noExternal"
  by (simp add: extPreservesStack_def noExternal_def)

subsection \<open>Stack discipline\<close>

text \<open>
  C2. Provided the external boundary leaves the call stack and the stack allocator's
  claimed total alone: an invocation that returns normally, whatever calls it nests,
  leaves the call stack as it found it (every frame pushed has been popped) and the
  stack allocator's claimed total at its value before the call. A frame starts with a
  recorded total of 0; every \<open>allocateStackMem\<close> adds the requested size to the
  frame's recorded total and to the allocator's claimed total, so that after a run of
  instructions the frame's recorded total has grown by the sum of the sizes they
  requested; and \<open>popStack\<close> removes the current frame and releases exactly its
  recorded total.
\<close>

theorem stack_discipline:
  assumes "extPreservesStack ext"
  shows "(callFunction n m ext fid argValues s = Some (Inr (v, sr))
            \<longrightarrow> stack sr = stack s \<and> mark (stackMem sr) = mark (stackMem s))
       \<and> (setupCalleeFrame f argValues s = Inr (calleeFrame, sc)
            \<longrightarrow> (\<exists>frc. stack sc = stack s @ [frc] \<and> allocationSize frc = 0
                    \<and> stackMem sc = stackMem s))
       \<and> (allocateStackMem frame k s = Inr (a, sa)
            \<longrightarrow> frame < length (stack s)
                \<and> stack sa = (stack s)[frame := increaseAllocationSize k (stack s ! frame)]
                \<and> allocationSize (stack sa ! frame) = allocationSize (stack s ! frame) + k
                \<and> mark (stackMem sa) = mark (stackMem s) + k)
       \<and> (stack s = pre @ [fr] \<and> evaluateInstructions n m ext (length pre) insts s = Some (Inr sb)
            \<longrightarrow> (\<exists>frb. stack sb = pre @ [frb]
                    \<and> allocationSize frb = allocationSize fr + sum_list (map requestedBytes insts)
                    \<and> mark (stackMem sb) = mark (stackMem s) + sum_list (map requestedBytes insts)))
       \<and> (popStack s = Inr sp
            \<longrightarrow> stack s = stack sp @ [last (stack s)]
                \<and> mark (stackMem s) = mark (stackMem sp) + allocationSize (last (stack s)))"
proof -
  have bal: "callsBalanced n m ext"
    using engine_balanced [OF assms] by blast
  have p1: "callFunction n m ext fid argValues s = Some (Inr (v, sr))
            \<longrightarrow> stack sr = stack s \<and> mark (stackMem sr) = mark (stackMem s)"
    using bal unfolding callsBalanced_def by blast
  have p2: "setupCalleeFrame f argValues s = Inr (calleeFrame, sc)
            \<longrightarrow> (\<exists>frc. stack sc = stack s @ [frc] \<and> allocationSize frc = 0
                    \<and> stackMem sc = stackMem s)"
    using setupCalleeFrame_pushes [of f argValues s calleeFrame sc] by blast
  have p3: "allocateStackMem frame k s = Inr (a, sa)
            \<longrightarrow> frame < length (stack s)
                \<and> stack sa = (stack s)[frame := increaseAllocationSize k (stack s ! frame)]
                \<and> allocationSize (stack sa ! frame) = allocationSize (stack s ! frame) + k
                \<and> mark (stackMem sa) = mark (stackMem s) + k"
    using allocateStackMem_adds [of frame k s a sa]
    by (auto simp: increaseAllocationSize_def)
  have p4: "stack s = pre @ [fr] \<and> evaluateInstructions n m ext (length pre) insts s = Some (Inr sb)
            \<longrightarrow> (\<exists>frb. stack sb = pre @ [frb]
                    \<and> allocationSize frb = allocationSize fr + sum_list (map requestedBytes insts)
                    \<and> mark (stackMem sb) = mark (stackMem s) + sum_list (map requestedBytes insts))"
    using evaluateInstructions_step [OF bal, of s pre fr insts sb]
    unfolding frameStep_def by blast
  have p5: "popStack s = Inr sp
            \<longrightarrow> stack s = stack sp @ [last (stack s)]
                \<and> mark (stackMem s) = mark (stackMem sp) + allocationSize (last (stack s))"
    using popStack_shape [of s sp] by blast
  from p1 p2 p3 p4 p5 show ?thesis by blast
qed

lemmas run_simps = callFunction.simps runFunction.simps dispatchTerminator.simps
  evaluateInstruction.simps lookupFunction_def isDeclaration_def setupCalleeFrame_eq arg_size_def
  getFrame_def newFrame_def insertBinding_def insertVararg_def putFrame_def getBlock_def
  getTerminator_def switchToNewBasicBlock_def commitPhiValues_def returnFrom_def popStack_def
  getCurrentFrame_def deallocate_def popFrame_def emptyMemory_def emptyInterpreter_def
  evaluateAlloca_def allocateStackMem_def allocate_def increaseAllocationSize_def bindResult_def
  evaluateBinaryOperator_def noExternal_def

theorem stack_discipline_witness:
  "extPreservesStack noExternal
   \<and> (\<exists>s1. callFunction (Suc (Suc 0)) nestedModule noExternal 0 [] emptyInterpreter
               = Some (Inr (IntValue 5, s1))
            \<and> stack s1 = [] \<and> mark (stackMem s1) = 0)
   \<and> (\<exists>s2 fr2. evaluateInstructions 0 nestedModule noExternal 0
                   [AllocaInst 0 8, AllocaInst 1 16] leafState = Some (Inr s2)
            \<and> stack s2 = [fr2] \<and> allocationSize fr2 = 24 \<and> mark (stackMem s2) = 24
            \<and> (\<exists>s3. popStack s2 = Inr s3 \<and> stack s3 = [] \<and> mark (stackMem s3) = 0))"
proof -
  note sd = stack_discipline [OF noExternal_preserves]
  have "\<exists>s1. callFunction (Suc (Suc 0)) nestedModule noExternal 0 [] emptyInterpreter
               = Some (Inr (IntValue 5, s1))"
    by (simp add: run_simps nestedModule_def callerFn_def leafFn_def)
  then obtain s1 where c1: "callFunction (Suc (Suc 0)) nestedModule noExternal 0 [] emptyInterpreter
               = Some (Inr (IntValue 5, s1))" ..
  from sd [where n = "Suc (Suc 0)" and m = nestedModule and fid = 0 and argValues = "[]"
      and s = emptyInterpreter and v = "IntValue 5" and sr = s1, THEN conjunct1, rule_format, OF c1]
  have r1: "stack s1 = [] \<and> mark (stackMem s1) = 0"
    by (simp add: emptyInterpreter_def emptyMemory_def)
  have top: "stack leafState = [] @ [newFrame leafFn]"
    by (simp add: leafState_def)
  have "\<exists>s2. evaluateInstructions 0 nestedModule noExternal (length ([]::StackFrame list))
                   [AllocaInst 0 8, AllocaInst 1 16] leafState = Some (Inr s2)"
    by (simp add: run_simps leafState_def)
  then obtain s2 where e: "evaluateInstructions 0 nestedModule noExternal (length ([]::StackFrame list))
                   [AllocaInst 0 8, AllocaInst 1 16] leafState = Some (Inr s2)" ..
  note part = sd [where n = 0 and m = nestedModule and s = leafState and pre = "[]"
      and fr = "newFrame leafFn" and insts = "[AllocaInst 0 8, AllocaInst 1 16]" and sb = s2,
      THEN conjunct2, THEN conjunct2, THEN conjunct2, THEN conjunct1, rule_format]
  from part [OF conjI [OF top e]]
  obtain fr2 where s2: "stack s2 = [fr2]" "allocationSize fr2 = 24" "mark (stackMem s2) = 24"
    by (auto simp: newFrame_def leafState_def emptyInterpreter_def emptyMemory_def)
  have "\<exists>s3. popStack s2 = Inr s3"
    using s2 by (simp add: popStack_def getCurrentFrame_def deallocate_def)
  then obtain s3 where p: "popStack s2 = Inr s3" ..
  from sd [where s = s2 and sp = s3, THEN conjunct2, THEN conjunct2, THEN conjunct2,
      THEN conjunct2, rule_format, OF p] s2
  have r3: "stack s3 = [] \<and> mark (stackMem s3) = 0"
    by simp
  from e have e': "evaluateInstructions 0 nestedModule noExternal 0
                   [AllocaInst 0 8, AllocaInst 1 16] leafState = Some (Inr s2)"
    by simp
  show ?thesis
    using noExternal_preserves c1 r1 e' s2 p r3
    by blast
qed

subsection \<open>The return terminator\<close>

lemma popStack_top_eq:
  assumes "stack s = pre @ [fr]" "allocationSize fr \<le> mark (stackMem s)"
  shows "\<exists>sp. popStack s = Inr sp \<and> stack sp = pre
           \<and> mark (stackMem sp) + allocationSize fr = mark (stackMem s)"
  using assms
  by (simp add: popStack_def getCurrentFrame_def deallocate_def popFrame_def)

text \<open>
  C3. Let the frame of the running function be the current frame (as \<open>callFunction\<close>
  leaves it), with no more bytes recorded than the stack allocator has claimed, and let
  the straight-line instructions of a block that ends in a return have run to the state
  \<open>sb\<close>. Then the frame is still the current frame in \<open>sb\<close>; the return value, when
  the instruction carries one, is evaluated in \<open>sb\<close> in that frame; \<open>popStack\<close> then
  removes that frame and releases its whole recorded total at once; and the loop ends
  with the evaluated value, or with \<open>UndefValue\<close> when the instruction carries none,
  and the popped state.
\<close>

theorem return_terminator:
  assumes "extPreservesStack ext"
    and "stack s = pre @ [fr]"
    and "allocationSize fr \<le> mark (stackMem s)"
    and "getBlock f curBB = Some bb"
    and "getTerminator bb = Some (ReturnInst returnValue)"
    and "evaluateInstructions n m ext (length pre)
           (takeWhile (\<lambda>i. \<not> isTerminator i) (dropWhile isPHINode bb)) s = Some (Inr sb)"
  shows "\<exists>frb sp. stack sb = pre @ [frb] \<and> popStack sb = Inr sp \<and> stack sp = pre
           \<and> mark (stackMem sp) + allocationSize frb = mark (stackMem sb)
           \<and> runLoop (Suc n) m ext (length pre) f curBB s =
               (case returnValue of
                  None \<Rightarrow> Some (Inr (UndefValue, sp))
                | Some retOperand \<Rightarrow>
                    (case evaluateOperand sb (length pre) retOperand of
                       Inl e \<Rightarrow> Some (Inl e)
                     | Inr retVal \<Rightarrow> Some (Inr (retVal, sp))))"
proof -
  have "callsBalanced n m ext"
    using engine_balanced [OF assms(1)] by blast
  from evaluateInstructions_step [OF this assms(2) assms(6)] obtain frb k where
    top: "stack sb = pre @ [frb]"
    and a: "allocationSize frb = allocationSize fr + k"
    and mk: "mark (stackMem sb) = mark (stackMem s) + k"
    by (auto simp: frameStep_def)
  from a mk assms(3) have "allocationSize frb \<le> mark (stackMem sb)"
    by simp
  from popStack_top_eq [OF top this] obtain sp where
    pop: "popStack sb = Inr sp" "stack sp = pre"
      "mark (stackMem sp) + allocationSize frb = mark (stackMem sb)"
    by blast
  have "runLoop (Suc n) m ext (length pre) f curBB s =
          Some (returnFrom (length pre) returnValue sb)"
    using assms(4,5,6) by (simp add: dispatchTerminator.simps)
  with pop(1) have "runLoop (Suc n) m ext (length pre) f curBB s =
               (case returnValue of
                  None \<Rightarrow> Some (Inr (UndefValue, sp))
                | Some retOperand \<Rightarrow>
                    (case evaluateOperand sb (length pre) retOperand of
                       Inl e \<Rightarrow> Some (Inl e)
                     | Inr retVal \<Rightarrow> Some (Inr (retVal, sp))))"
    by (simp add: returnFrom_def split: option.split sum.split)
  with top pop show ?thesis by blast
qed

theorem return_terminator_witness:
  "extPreservesStack noExternal
   \<and> stack returnState = [] @ [newFrame returnFn]
   \<and> allocationSize (newFrame returnFn) \<le> mark (stackMem returnState)
   \<and> getBlock returnFn 0 = Some (blocks returnFn ! 0)
   \<and> getTerminator (blocks returnFn ! 0) = Some (ReturnInst (Some (LocalValue 1)))
   \<and> (\<exists>sb frb sp.
         evaluateInstructions 0 returnModule noExternal 0
           (takeWhile (\<lambda>i. \<not> isTerminator i) (dropWhile isPHINode (blocks returnFn ! 0)))
           returnState = Some (Inr sb)
         \<and> stack sb = [frb] \<and> allocationSize frb = 8 \<and> mark (stackMem sb) = 8
         \<and> evaluateOperand sb 0 (LocalValue 1) = Inr (IntValue 5)
         \<and> runLoop (Suc 0) returnModule noExternal 0 returnFn 0 returnState
             = Some (Inr (IntValue 5, sp))
         \<and> stack sp = [] \<and> mark (stackMem sp) = 0)"
proof -
  have h2: "stack returnState = [] @ [newFrame returnFn]"
    by (simp add: returnState_def)
  have h3: "allocationSize (newFrame returnFn) \<le> mark (stackMem returnState)"
    by (simp add: newFrame_def)
  have h4: "getBlock returnFn 0 = Some (blocks returnFn ! 0)"
    by (simp add: getBlock_def returnFn_def)
  have h5: "getTerminator (blocks returnFn ! 0) = Some (ReturnInst (Some (LocalValue 1)))"
    by (simp add: getTerminator_def returnFn_def)
  have "\<exists>sb. evaluateInstructions 0 returnModule noExternal (length ([]::StackFrame list))
           (takeWhile (\<lambda>i. \<not> isTerminator i) (dropWhile isPHINode (blocks returnFn ! 0)))
           returnState = Some (Inr sb)
         \<and> (\<exists>frb. stack sb = [frb] \<and> allocationSize frb = 8) \<and> mark (stackMem sb) = 8
         \<and> evaluateOperand sb 0 (LocalValue 1) = Inr (IntValue 5)"
    by (simp add: run_simps returnState_def returnFn_def)
  then obtain sb frb where
    h6: "evaluateInstructions 0 returnModule noExternal (length ([]::StackFrame list))
           (takeWhile (\<lambda>i. \<not> isTerminator i) (dropWhile isPHINode (blocks returnFn ! 0)))
           returnState = Some (Inr sb)"
    and sb: "stack sb = [frb]" "allocationSize frb = 8" "mark (stackMem sb) = 8"
      "evaluateOperand sb 0 (LocalValue 1) = Inr (IntValue 5)"
    by blast
  from return_terminator [OF noExternal_preserves h2 h3 h4 h5 h6] sb
  obtain sp where "runLoop (Suc 0) returnModule noExternal 0 returnFn 0 returnState
             = Some (Inr (IntValue 5, sp))" "stack sp = []" "mark (stackMem sp) = 0"
    by auto
  with noExternal_preserves h2 h3 h4 h5 h6 sb show ?thesis
    by (auto simp del: append_Nil)
qed

subsection \<open>PHI nodes at the head of the entry block\<close>

lemma dropWhile_phis:
  "\<forall>i\<in>set phis. isPHINode i \<Longrightarrow> dropWhile isPHINode (phis @ rest) = dropWhile isPHINode rest"
  by (induction phis) simp_all

text \<open>
  C10. Let the entry block of the function of the current frame begin with the PHI
  nodes \<open>phis\<close>. Then \<open>runFunction\<close> starts by evaluating the straight-line
  instructions that follow them, in the state it was given: no operand of those PHI
  nodes is evaluated and \<open>switchToNewBasicBlock\<close> is not run for the entry block.
  When those instructions have run, the binding of every such PHI node (that no
  instruction of the block redefines) is what it was on entry, so it is still unbound if
  it was unbound on entry; the terminator is dispatched in that state.
\<close>

theorem entry_phis_skipped:
  assumes "extPreservesStack ext"
    and "stack s = pre @ [fr]"
    and "getBlock (getFunction fr) 0 = Some (phis @ rest)"
    and "\<forall>i\<in>set phis. isPHINode i"
  shows "runFunction (Suc n) m ext (length pre) s =
           (case evaluateInstructions n m ext (length pre)
                   (takeWhile (\<lambda>i. \<not> isTerminator i) (dropWhile isPHINode rest)) s of
              None \<Rightarrow> None
            | Some (Inl e) \<Rightarrow> Some (Inl e)
            | Some (Inr sb) \<Rightarrow>
                (case getTerminator (phis @ rest) of
                   None \<Rightarrow> Some (Inl NoTerminator)
                 | Some termInst \<Rightarrow>
                     dispatchTerminator n m ext (length pre) (getFunction fr) 0 termInst sb))
         \<and> (\<forall>sb p incoming.
               evaluateInstructions n m ext (length pre)
                   (takeWhile (\<lambda>i. \<not> isTerminator i) (dropWhile isPHINode rest)) s = Some (Inr sb)
               \<and> PHINode p incoming \<in> set phis
               \<and> (\<forall>i\<in>set (takeWhile (\<lambda>i. \<not> isTerminator i) (dropWhile isPHINode rest)).
                     definedId i \<noteq> Some p)
               \<longrightarrow> (\<exists>frb. stack sb = pre @ [frb] \<and> bindings frb p = bindings fr p))"
proof -
  have bal: "callsBalanced n m ext"
    using engine_balanced [OF assms(1)] by blast
  have run: "runFunction (Suc n) m ext (length pre) s =
           (case evaluateInstructions n m ext (length pre)
                   (takeWhile (\<lambda>i. \<not> isTerminator i) (dropWhile isPHINode rest)) s of
              None \<Rightarrow> None
            | Some (Inl e) \<Rightarrow> Some (Inl e)
            | Some (Inr sb) \<Rightarrow>
                (case getTerminator (phis @ rest) of
                   None \<Rightarrow> Some (Inl NoTerminator)
                 | Some termInst \<Rightarrow>
                     dispatchTerminator n m ext (length pre) (getFunction fr) 0 termInst sb))"
    using assms(2,3,4) by (simp add: runFunction.simps getFrame_top dropWhile_phis)
  have keep: "\<exists>frb. stack sb = pre @ [frb] \<and> bindings frb p = bindings fr p"
    if "evaluateInstructions n m ext (length pre)
          (takeWhile (\<lambda>i. \<not> isTerminator i) (dropWhile isPHINode rest)) s = Some (Inr sb)"
      and "\<forall>i\<in>set (takeWhile (\<lambda>i. \<not> isTerminator i) (dropWhile isPHINode rest)).
             definedId i \<noteq> Some p"
    for sb p
    using evaluateInstructions_step [OF bal assms(2) that(1)] that(2)
    unfolding frameStep_def by auto
  from run keep show ?thesis by blast
qed

theorem entry_phis_skipped_witness:
  "extPreservesStack noExternal
   \<and> stack entryPhiState = [] @ [newFrame entryPhiFn]
   \<and> getBlock (getFunction (newFrame entryPhiFn)) 0 =
        Some ([PHINode 7 [(0, ConstantValue (ConstantInt 5))]] @
              [BinaryOperator 1 Add (ConstantValue (ConstantInt 2)) (ConstantValue (ConstantInt 3)),
               ReturnInst (Some (LocalValue 7))])
   \<and> isPHINode (PHINode 7 [(0, ConstantValue (ConstantInt 5))])
   \<and> (\<exists>sb frb.
         evaluateInstructions 0 entryPhiModule noExternal 0
           [BinaryOperator 1 Add (ConstantValue (ConstantInt 2)) (ConstantValue (ConstantInt 3))]
           entryPhiState = Some (Inr sb)
         \<and> stack sb = [frb] \<and> bindings frb 7 = None \<and> bindings frb 1 = Some (IntValue 5))
   \<and> runFunction (Suc 0) entryPhiModule noExternal 0 entryPhiState = Some (Inl UnboundValue)"
proof -
  let ?phis = "[PHINode 7 [(0, ConstantValue (ConstantInt 5))]]"
  let ?rest = "[BinaryOperator 1 Add (ConstantValue (ConstantInt 2)) (ConstantValue (ConstantInt 3)),
               ReturnInst (Some (LocalValue 7))]"
  have h2: "stack entryPhiState = [] @ [newFrame entryPhiFn]"
    by (simp add: entryPhiState_def)
  have h3: "getBlock (getFunction (newFrame entryPhiFn)) 0 = Some (?phis @ ?rest)"
    by (simp add: getBlock_def newFrame_def entryPhiFn_def)
  have h4: "\<forall>i\<in>set ?phis. isPHINode i"
    by simp
  note skipped = entry_phis_skipped [OF noExternal_preserves h2 h3 h4, of 0 entryPhiModule]
  have "\<exists>sb. evaluateInstructions 0 entryPhiModule noExternal (length ([]::StackFrame list))
           (takeWhile (\<lambda>i. \<not> isTerminator i) (dropWhile isPHINode ?rest))
           entryPhiState = Some (Inr sb)
         \<and> (\<exists>frb. stack sb = [frb] \<and> bindings frb 1 = Some (IntValue 5))"
    by (simp add: run_simps entryPhiState_def)
  then obtain sb frb where
    e: "evaluateInstructions 0 entryPhiModule noExternal (length ([]::StackFrame list))
           (takeWhile (\<lambda>i. \<not> isTerminator i) (dropWhile isPHINode ?rest))
           entryPhiState = Some (Inr sb)"
    and sb: "stack sb = [frb]" "bindings frb 1 = Some (IntValue 5)"
    by blast
  have "\<forall>i\<in>set (takeWhile (\<lambda>i. \<not> isTerminator i) (dropWhile isPHINode ?rest)).
          definedId i \<noteq> Some 7"
    by simp
  with skipped e have "\<exists>frb. stack sb = [] @ [frb] \<and> bindings frb 7 = bindings (newFrame entryPhiFn) 7"
    by (meson list.set_intros(1))
  with sb have unbound: "bindings frb 7 = None"
    by (simp add: newFrame_def)
  from sb unbound have "dispatchTerminator 0 entryPhiModule noExternal 0 entryPhiFn 0
          (ReturnInst (Some (LocalValue 7))) sb = Some (Inl UnboundValue)"
    by (simp add: dispatchTerminator.simps returnFrom_def getFrame_def)
  with skipped e have r: "runFunction (Suc 0) entryPhiModule noExternal 0 entryPhiState
      = Some (Inl UnboundValue)"
    by (simp add: getTerminator_def newFrame_def)
  from e have e': "evaluateInstructions 0 entryPhiModule noExternal 0
           [BinaryOperator 1 Add (ConstantValue (ConstantInt 2)) (ConstantValue (ConstantInt 3))]
           entryPhiState = Some (Inr sb)"
    by simp
  show ?thesis
    using noExternal_preserves h2 h3 e' sb unbound r
    by (auto simp del: append_Nil append.simps)
qed

subsection \<open>PHI nodes on entering a block\<close>



subsection \<open>Binding the arguments of a call\<close>

lemma bindFixedArgs_other:
  "q \<notin> set ps \<Longrightarrow> bindings (snd (bindFixedArgs ps argValues i fr)) q = bindings fr q"
  by (induction ps arbitrary: i fr) (simp_all add: insertBinding_def)

lemma bindFixedArgs_nth:
  "distinct ps \<Longrightarrow> j < length ps \<Longrightarrow>
   bindings (snd (bindFixedArgs ps argValues i fr)) (ps ! j) = Some (argValues ! (i + j))"
proof (induction ps arbitrary: i fr j)
  case Nil
  then show ?case by simp
next
  case (Cons p ps)
  show ?case
  proof (cases j)
    case 0
    with Cons.prems show ?thesis
      by (simp add: bindFixedArgs_other insertBinding_def)
  next
    case (Suc k)
    with Cons.prems Cons.IH [of k "Suc i" "insertBinding p (argValues ! i) fr"] show ?thesis
      by simp
  qed
qed

lemma bindFixedArgs_dom:
  "dom (bindings (snd (bindFixedArgs ps argValues i fr))) = dom (bindings fr) \<union> set ps"
  by (induction ps arbitrary: i fr) (auto simp: insertBinding_def)

text \<open>
  C7. A call of a function with a body and distinct parameters, with as many arguments
  as parameters, or with more when the function is variadic, pushes one frame and runs
  the function in it; that frame binds exactly the fixed parameters, the \<open>i\<close>-th
  parameter to the \<open>i\<close>-th argument, and its varargs are the remaining arguments in
  the order of the call.
\<close>

theorem callFunction_binds_arguments:
  assumes "lookupFunction m fid = Some f"
    and "\<not> isDeclaration f"
    and "distinct (fnArgs f)"
    and "length argValues = arg_size f \<or> (arg_size f < length argValues \<and> isVarArg f)"
  shows "\<exists>fr sc. setupCalleeFrame f argValues s = Inr (length (stack s), sc)
           \<and> sc = s\<lparr>stack := stack s @ [fr]\<rparr>
           \<and> callFunction n m ext fid argValues s = runFunction n m ext (length (stack s)) sc
           \<and> getFunction fr = f
           \<and> dom (bindings fr) = set (fnArgs f)
           \<and> (\<forall>i<arg_size f. bindings fr (fnArgs f ! i) = Some (argValues ! i))
           \<and> varargs fr = drop (arg_size f) argValues
           \<and> allocationSize fr = 0"
proof -
  let ?fr = "foldl (\<lambda>fr v. insertVararg v fr)
               (snd (bindFixedArgs (fnArgs f) argValues 0 (newFrame f)))
               (drop (arg_size f) argValues)"
  let ?sc = "s\<lparr>stack := stack s @ [?fr]\<rparr>"
  have su: "setupCalleeFrame f argValues s = Inr (length (stack s), ?sc)"
    using assms(4) by (simp add: setupCalleeFrame_eq)
  with assms(1,2) have call: "callFunction n m ext fid argValues s
      = runFunction n m ext (length (stack s)) ?sc"
    by (simp add: callFunction.simps)
  have fn: "getFunction ?fr = f" "allocationSize ?fr = 0"
    "varargs ?fr = drop (arg_size f) argValues"
    by (simp_all add: foldl_insertVararg_fields bindFixedArgs_fields newFrame_def)
  have b: "bindings ?fr = bindings (snd (bindFixedArgs (fnArgs f) argValues 0 (newFrame f)))"
    by (simp add: foldl_insertVararg_fields)
  have d: "dom (bindings ?fr) = set (fnArgs f)"
    by (simp only: b bindFixedArgs_dom) (simp add: newFrame_def)
  have nth: "\<forall>i<arg_size f. bindings ?fr (fnArgs f ! i) = Some (argValues ! i)"
    using bindFixedArgs_nth [OF assms(3), of _ argValues 0 "newFrame f"]
    by (simp add: foldl_insertVararg_fields arg_size_def)
  from su call fn d nth show ?thesis
    by blast
qed

theorem callFunction_binds_arguments_witness:
  "lookupFunction variadicModule 0 = Some variadicFn
   \<and> isDeclaration variadicFn = False
   \<and> distinct (fnArgs variadicFn)
   \<and> arg_size variadicFn = 2 \<and> isVarArg variadicFn
   \<and> (\<exists>fr. setupCalleeFrame variadicFn
               [IntValue 10, IntValue 20, IntValue 30, IntValue 40, IntValue 50] emptyInterpreter
             = Inr (0, emptyInterpreter\<lparr>stack := [fr]\<rparr>)
          \<and> dom (bindings fr) = {0, 1}
          \<and> bindings fr 0 = Some (IntValue 10) \<and> bindings fr 1 = Some (IntValue 20)
          \<and> varargs fr = [IntValue 30, IntValue 40, IntValue 50])"
proof -
  have h1: "lookupFunction variadicModule 0 = Some variadicFn"
    by (simp add: lookupFunction_def variadicModule_def variadicFn_def)
  have h2: "\<not> isDeclaration variadicFn"
    by (simp add: isDeclaration_def variadicFn_def)
  have h3: "distinct (fnArgs variadicFn)"
    by (simp add: variadicFn_def)
  have sz: "arg_size variadicFn = 2" "isVarArg variadicFn"
    by (simp_all add: arg_size_def variadicFn_def)
  then have h4: "length [IntValue 10, IntValue 20, IntValue 30, IntValue 40, IntValue 50]
        = arg_size variadicFn
      \<or> (arg_size variadicFn < length [IntValue 10, IntValue 20, IntValue 30, IntValue 40, IntValue 50]
          \<and> isVarArg variadicFn)"
    by simp
  from callFunction_binds_arguments [OF h1 h2 h3 h4, of emptyInterpreter 0 noExternal]
  obtain fr where
    fr: "setupCalleeFrame variadicFn
           [IntValue 10, IntValue 20, IntValue 30, IntValue 40, IntValue 50] emptyInterpreter
         = Inr (length (stack emptyInterpreter), emptyInterpreter\<lparr>stack := stack emptyInterpreter @ [fr]\<rparr>)"
      "dom (bindings fr) = set (fnArgs variadicFn)"
      "\<forall>i<arg_size variadicFn. bindings fr (fnArgs variadicFn ! i)
          = Some ([IntValue 10, IntValue 20, IntValue 30, IntValue 40, IntValue 50] ! i)"
      "varargs fr = drop (arg_size variadicFn)
          [IntValue 10, IntValue 20, IntValue 30, IntValue 40, IntValue 50]"
    by blast
  from fr(3) sz have "bindings fr (fnArgs variadicFn ! 0) = Some (IntValue 10)"
    "bindings fr (fnArgs variadicFn ! 1) = Some (IntValue 20)"
    by simp_all
  then have b: "bindings fr 0 = Some (IntValue 10)" "bindings fr 1 = Some (IntValue 20)"
    by (simp_all add: variadicFn_def)
  from fr(1) have s: "setupCalleeFrame variadicFn
               [IntValue 10, IntValue 20, IntValue 30, IntValue 40, IntValue 50] emptyInterpreter
             = Inr (0, emptyInterpreter\<lparr>stack := [fr]\<rparr>)"
    by (simp add: emptyInterpreter_def)
  from fr(2) have d: "dom (bindings fr) = {0, 1}"
    by (auto simp: variadicFn_def)
  from fr(4) sz have v: "varargs fr = [IntValue 30, IntValue 40, IntValue 50]"
    by simp
  from h1 h2 h3 sz s d b v show ?thesis
    by blast
qed

subsection \<open>The assertion on the number of arguments\<close>

text \<open>
  C8 does not hold for a declaration: a function without a body is handed to the
  external boundary before the assertion is reached. Here a declaration without
  parameters, not variadic, is called with one argument and the call returns normally.
\<close>

theorem argument_count_counterexample:
  "lookupFunction variadicModule 1 = Some declFn
   \<and> arg_size declFn = 0 \<and> length [IntValue 1] = 1 \<and> isVarArg declFn = False
   \<and> callFunction 0 variadicModule noExternal 1 [IntValue 1] emptyInterpreter
       = Some (Inr (UndefValue, emptyInterpreter))"
  by (simp add: callFunction.simps lookupFunction_def variadicModule_def variadicFn_def declFn_def
      isDeclaration_def arg_size_def noExternal_def)

text \<open>
  C8, amended. For a function with a body: when the number of arguments is not the
  number of parameters, and is not larger with the function variadic, the call aborts
  on the assertion, whatever the fuel, the external boundary and the state.
\<close>

theorem argument_count_assertion:
  assumes "lookupFunction m fid = Some f"
    and "\<not> isDeclaration f"
    and "length argValues \<noteq> arg_size f"
    and "\<not> (arg_size f < length argValues \<and> isVarArg f)"
  shows "callFunction n m ext fid argValues s = Some (Inl InvalidArgumentCount)"
  using assms by (auto simp: callFunction.simps setupCalleeFrame_eq)

theorem argument_count_assertion_witness:
  "lookupFunction variadicModule 0 = Some variadicFn
   \<and> isDeclaration variadicFn = False
   \<and> arg_size variadicFn = 2
   \<and> callFunction 5 variadicModule noExternal 0 [IntValue 10] emptyInterpreter
       = Some (Inl InvalidArgumentCount)"
proof -
  have h1: "lookupFunction variadicModule 0 = Some variadicFn"
    by (simp add: lookupFunction_def variadicModule_def variadicFn_def)
  have h2: "\<not> isDeclaration variadicFn"
    by (simp add: isDeclaration_def variadicFn_def)
  have sz: "arg_size variadicFn = 2"
    by (simp add: arg_size_def variadicFn_def)
  then have h3: "length [IntValue 10] \<noteq> arg_size variadicFn"
    and h4: "\<not> (arg_size variadicFn < length [IntValue 10] \<and> isVarArg variadicFn)"
    by simp_all
  from argument_count_assertion [OF h1 h2 h3 h4] h1 h2 sz show ?thesis
    by simp
qed

text \<open>A function without a body goes to the external boundary with the arguments as
  they are, whatever their number.\<close>

lemma declaration_goes_to_boundary:
  "lookupFunction m fid = Some f \<Longrightarrow> isDeclaration f \<Longrightarrow>
   callFunction n m ext fid argValues s = Some (ext f argValues s)"
  by (simp add: callFunction.simps)

subsection \<open>Program initialization\<close>

lemma allocateGlobalMem_eq:
  "allocateGlobalMem m ty s =
     (if isVectorTy ty then Inl VectorTypeNotSupported
      else Inr (mark (globalMem s),
                s\<lparr>globalMem := (globalMem s)\<lparr>mark := mark (globalMem s) + getTypeAllocSize m ty\<rparr>\<rparr>))"
  by (simp add: allocateGlobalMem_def allocate_def)

lemma allocateGlobals_frame:
  "allocateGlobals m gs s = Inr s1 \<Longrightarrow>
   mark (globalMem s1) = mark (globalMem s) + sum_list (map (gvSize m) gs)
   \<and> cells (globalMem s1) = cells (globalMem s)
   \<and> funPtrMap s1 = funPtrMap s \<and> stack s1 = stack s \<and> stackMem s1 = stackMem s"
  by (induction gs arbitrary: s) (auto simp: allocateGlobalMem_eq gvSize_def split: if_splits)

lemma map_insert_keeps: "t k = Some a \<Longrightarrow> map_insert t k' v k = Some a"
  by (auto simp: map_insert_def split: option.splits)

lemma allocateGlobals_keeps:
  "allocateGlobals m gs s = Inr s1 \<Longrightarrow> globalEnv s k = Some a \<Longrightarrow> globalEnv s1 k = Some a"
proof (induction gs arbitrary: s)
  case Nil
  then show ?case by simp
next
  case (Cons g gs)
  let ?s = "s\<lparr>globalMem := (globalMem s)\<lparr>mark := mark (globalMem s) + gvSize m g\<rparr>,
               globalEnv := map_insert (globalEnv s) (VarKey (gvId g)) (mark (globalMem s))\<rparr>"
  from Cons.prems(1) have rest: "allocateGlobals m gs ?s = Inr s1"
    by (auto simp: allocateGlobalMem_eq gvSize_def split: if_splits)
  from Cons.prems(2) have "globalEnv ?s k = Some a"
    by (simp add: map_insert_keeps)
  from Cons.IH [OF rest this] show ?case .
qed

lemma allocateGlobals_other:
  "allocateGlobals m gs s = Inr s1 \<Longrightarrow> k \<notin> (\<lambda>g. VarKey (gvId g)) ` set gs \<Longrightarrow>
   globalEnv s1 k = globalEnv s k"
  by (induction gs arbitrary: s)
    (auto simp: allocateGlobalMem_eq map_insert_def split: if_splits option.splits)

lemma allocateGlobals_address:
  "allocateGlobals m gs s = Inr s1 \<Longrightarrow> distinct (map gvId gs) \<Longrightarrow> i < length gs \<Longrightarrow>
   globalEnv s (VarKey (gvId (gs ! i))) = None \<Longrightarrow>
   globalEnv s1 (VarKey (gvId (gs ! i)))
     = Some (mark (globalMem s) + sum_list (map (gvSize m) (take i gs)))"
proof (induction gs arbitrary: s i)
  case Nil
  then show ?case by simp
next
  case (Cons g gs)
  let ?s = "s\<lparr>globalMem := (globalMem s)\<lparr>mark := mark (globalMem s) + gvSize m g\<rparr>,
               globalEnv := map_insert (globalEnv s) (VarKey (gvId g)) (mark (globalMem s))\<rparr>"
  from Cons.prems(1) have rest: "allocateGlobals m gs ?s = Inr s1"
    by (auto simp: allocateGlobalMem_eq gvSize_def split: if_splits)
  show ?case
  proof (cases i)
    case 0
    with Cons.prems(4) have "globalEnv ?s (VarKey (gvId g)) = Some (mark (globalMem s))"
      by (simp add: map_insert_def)
    from allocateGlobals_keeps [OF rest this] 0 show ?thesis
      by simp
  next
    case (Suc j)
    with Cons.prems(3) have j: "j < length gs"
      by simp
    then have "gvId (gs ! j) \<in> gvId ` set gs"
      by simp
    with Cons.prems(2) have ne: "gvId (gs ! j) \<noteq> gvId g"
      by auto
    with Cons.prems(4) Suc have "globalEnv ?s (VarKey (gvId (gs ! j))) = None"
      by (simp add: map_insert_def split: option.splits)
    from Cons.IH [OF rest _ j this] Cons.prems(2) Suc show ?thesis
      by (simp add: add.assoc)
  qed
qed

lemma evaluateConstant_env:
  "globalEnv s = globalEnv s' \<Longrightarrow> evaluateConstant s c = evaluateConstant s' c"
  by (cases c) simp_all

lemma initializeGlobals_frame:
  "initializeGlobals gs s = Inr s2 \<Longrightarrow>
   globalEnv s2 = globalEnv s \<and> mark (globalMem s2) = mark (globalMem s)
   \<and> funPtrMap s2 = funPtrMap s \<and> stack s2 = stack s \<and> stackMem s2 = stackMem s"
  by (induction gs arbitrary: s)
    (auto simp: writeMem_def split: option.splits sum.splits if_splits)

lemma initializeGlobals_untouched:
  "initializeGlobals gs s = Inr s2 \<Longrightarrow>
   \<forall>g\<in>set gs. globalEnv s (VarKey (gvId g)) \<noteq> Some a \<Longrightarrow>
   cells (globalMem s2) a = cells (globalMem s) a"
  by (induction gs arbitrary: s)
    (auto simp: writeMem_def split: option.splits sum.splits if_splits)

lemma initializeGlobals_writes:
  "initializeGlobals gs s = Inr s2 \<Longrightarrow> distinct gs \<Longrightarrow>
   inj_on (\<lambda>g. globalEnv s (VarKey (gvId g))) (set gs) \<Longrightarrow>
   g \<in> set gs \<Longrightarrow> gvInitializer g = Some c \<Longrightarrow>
   \<exists>a v. globalEnv s (VarKey (gvId g)) = Some a \<and> evaluateConstant s c = Inr v
     \<and> cells (globalMem s2) a = Some v"
proof (induction gs arbitrary: s)
  case Nil
  then show ?case by simp
next
  case (Cons h gs)
  from Cons.prems(1) obtain ah where ah: "globalEnv s (VarKey (gvId h)) = Some ah"
    by (auto split: option.splits)
  from Cons.prems(1) ah obtain sh where
    sh: "initializeGlobals gs sh = Inr s2" and env: "globalEnv sh = globalEnv s"
    and wr: "\<And>ch. gvInitializer h = Some ch \<Longrightarrow>
               \<exists>v. evaluateConstant s ch = Inr v \<and> cells (globalMem sh) ah = Some v"
    by (auto simp: writeMem_def split: option.splits sum.splits if_splits)
  from Cons.prems(3) env have inj: "inj_on (\<lambda>g. globalEnv sh (VarKey (gvId g))) (set gs)"
    by (simp add: inj_on_def)
  show ?case
  proof (cases "g = h")
    case True
    from Cons.prems(2,3) ah env have "\<forall>g'\<in>set gs. globalEnv sh (VarKey (gvId g')) \<noteq> Some ah"
      by (auto simp: inj_on_def)
    from initializeGlobals_untouched [OF sh this] wr [of c] Cons.prems(5) True ah
    show ?thesis by auto
  next
    case False
    with Cons.prems(4) have "g \<in> set gs" by simp
    from Cons.IH [OF sh _ inj this Cons.prems(5)] Cons.prems(2) env
      evaluateConstant_env [OF env, of c]
    show ?thesis by auto
  qed
qed

lemma allocateFunctions_frame:
  "allocateFunctions m fs s = Inr s3 \<Longrightarrow>
   cells (globalMem s3) = cells (globalMem s)
   \<and> mark (globalMem s3) = mark (globalMem s) + sum_list (map (\<lambda>f. getTypeAllocSize m (fnType f)) fs)
   \<and> (\<forall>x. globalEnv s3 (VarKey x) = globalEnv s (VarKey x))"
  by (induction fs arbitrary: s)
    (auto simp: allocateGlobalMem_eq map_insert_def split: if_splits option.splits)

lemma sum_list_take_less:
  fixes f :: "'a \<Rightarrow> nat"
  assumes "\<forall>x\<in>set xs. 0 < f x" "i < j" "j \<le> length xs"
  shows "sum_list (map f (take i xs)) < sum_list (map f (take j xs))"
proof -
  have "take j xs = take i xs @ take (j - i) (drop i xs)"
    using assms(2) by (metis le_add_diff_inverse less_imp_le_nat take_add)
  moreover have "take (j - i) (drop i xs) \<noteq> []"
    using assms(2,3) by simp
  then obtain y ys where yys: "take (j - i) (drop i xs) = y # ys"
    by (cases "take (j - i) (drop i xs)") auto
  then have "y \<in> set xs"
    by (metis in_set_dropD in_set_takeD list.set_intros(1))
  with assms(1) have "0 < f y" by blast
  ultimately show ?thesis
    using yys by simp
qed

lemma evaluateGlobals_stages:
  assumes "evaluateGlobals m s = Inr s'"
  shows "\<exists>s1 s2. allocateGlobals m (globals m) (s\<lparr>globalMem := clear (globalMem s)\<rparr>) = Inr s1
           \<and> initializeGlobals (globals m) s1 = Inr s2
           \<and> allocateFunctions m (functionList m) s2 = Inr s'"
  using assms by (auto simp: evaluateGlobals_def split: sum.splits)

lemma first_initialization_addresses:
  assumes "allocateGlobals m gs (s\<lparr>globalMem := clear (globalMem s)\<rparr>) = Inr s1"
    and "distinct (map gvId gs)"
    and "\<forall>g\<in>set gs. globalEnv s (VarKey (gvId g)) = None"
    and "i < length gs"
  shows "globalEnv s1 (VarKey (gvId (gs ! i))) = Some (sum_list (map (gvSize m) (take i gs)))"
  using allocateGlobals_address [OF assms(1,2,4)] assms(3,4)
  by (simp add: clear_def emptyMemory_def)

lemmas init_simps = evaluateGlobals_def allocateGlobalMem_eq map_insert_def writeMem_def
  clear_def emptyMemory_def emptyInterpreter_def gvType_def fnType_def

subsection \<open>Initializing a second time\<close>

text \<open>
  C4 does not hold. \<open>evaluateGlobals\<close> clears the global space but not
  \<open>globalEnv\<close> and \<open>funPtrMap\<close>, and \<open>insert\<close> keeps an entry that is already
  there. After an initialization of \<open>moduleBefore\<close> and a second one of
  \<open>moduleAfter\<close> (the same module with one more global in front), the old global and
  the function still have the addresses of the first call, the old global shares its
  address with the new one, and \<open>funPtrMap\<close> still resolves the function's first
  address; an initialization of \<open>moduleAfter\<close> from an empty state gives none of this.
\<close>

theorem reinitialization_keeps_stale_entries:
  "\<exists>s1 s2 sf. evaluateGlobals moduleBefore emptyInterpreter = Inr s1
     \<and> evaluateGlobals moduleAfter s1 = Inr s2
     \<and> evaluateGlobals moduleAfter emptyInterpreter = Inr sf
     \<and> globalEnv s1 (VarKey 1) = Some 0 \<and> globalEnv s1 (FunKey 0) = Some 8
     \<and> funPtrMap s1 8 = Some 0
     \<and> globalEnv s2 (VarKey 0) = Some 0 \<and> globalEnv s2 (VarKey 1) = Some 0
     \<and> globalEnv s2 (FunKey 0) = Some 8
     \<and> funPtrMap s2 8 = Some 0 \<and> funPtrMap s2 16 = Some 0
     \<and> globalEnv sf (VarKey 0) = Some 0 \<and> globalEnv sf (VarKey 1) = Some 8
     \<and> globalEnv sf (FunKey 0) = Some 16
     \<and> funPtrMap sf 8 = None \<and> funPtrMap sf 16 = Some 0"
  by (simp add: init_simps moduleBefore_def moduleAfter_def keptGlobal_def addedGlobal_def
      keptFn_def)

subsection \<open>Transfer of control into a block with PHI nodes\<close>








subsection \<open>The size of a global's storage\<close>

lemma gvType_not_vector: "\<not> isVectorTy (gvType g)"
  by (simp add: gvType_def)

lemma fnType_not_vector: "\<not> isVectorTy (fnType f)"
  by (simp add: fnType_def)

lemma allocateGlobalMem_of_global:
  "allocateGlobalMem m (gvType g) s =
     Inr (mark (globalMem s),
          s\<lparr>globalMem := (globalMem s)\<lparr>mark := mark (globalMem s)
             + getTypeAllocSize m (PointerTy (gvValueType g))\<rparr>\<rparr>)"
  by (simp add: allocateGlobalMem_eq gvType_def)

text \<open>
  C6 does not hold. \<open>allocateGlobalMem\<close> asks \<^verbatim>\<open>gv->getType()\<close> for the type, and for
  a global value that is the pointer to what the global holds: the check for a vector
  type never fires and every global gets the allocation size of a pointer. In
  \<open>typedModule\<close> the allocation sizes of the three variables' types are 4, 16 and 400
  bytes and the second is a vector; initialization succeeds and gives each variable 8
  bytes.
\<close>

theorem globals_get_pointer_sized_storage:
  "getTypeAllocSize typedModule (gvValueType wordGlobal) = 4
   \<and> isVectorTy (gvValueType vectorGlobal)
   \<and> getTypeAllocSize typedModule (gvValueType vectorGlobal) = 16
   \<and> getTypeAllocSize typedModule (gvValueType tableGlobal) = 400
   \<and> (\<exists>s'. evaluateGlobals typedModule emptyInterpreter = Inr s'
          \<and> globalEnv s' (VarKey (gvId wordGlobal)) = Some 0
          \<and> globalEnv s' (VarKey (gvId vectorGlobal)) = Some 8
          \<and> globalEnv s' (VarKey (gvId tableGlobal)) = Some 16
          \<and> mark (globalMem s') = 24)"
  by (simp add: init_simps typedModule_def wordGlobal_def vectorGlobal_def tableGlobal_def)

subsection \<open>References between globals\<close>

lemma allocateGlobals_succeeds: "\<exists>s1. allocateGlobals m gs s = Inr s1"
  by (induction gs arbitrary: s) (simp_all add: allocateGlobalMem_of_global)

lemma allocateFunctions_succeeds: "\<exists>s3. allocateFunctions m fs s = Inr s3"
  by (induction fs arbitrary: s) (simp_all add: allocateGlobalMem_eq fnType_not_vector)

lemma initializeGlobals_succeeds:
  assumes "\<forall>g\<in>set gs. \<exists>a. globalEnv s (VarKey (gvId g)) = Some a \<and> a < mark (globalMem s)
             \<and> (\<forall>c. gvInitializer g = Some c \<longrightarrow> (\<exists>v. evaluateConstant s c = Inr v))"
  shows "\<exists>s2. initializeGlobals gs s = Inr s2"
  using assms
proof (induction gs arbitrary: s)
  case Nil
  show ?case by simp
next
  case (Cons g gs)
  from Cons.prems obtain a where
    a: "globalEnv s (VarKey (gvId g)) = Some a" "a < mark (globalMem s)"
    and c: "\<forall>c. gvInitializer g = Some c \<longrightarrow> (\<exists>v. evaluateConstant s c = Inr v)"
    by auto
  have next_ok: "\<exists>s2. initializeGlobals gs (s\<lparr>globalMem := mem\<rparr>) = Inr s2"
    if "mark mem = mark (globalMem s)" for mem
  proof (rule Cons.IH, rule ballI)
    fix h assume "h \<in> set gs"
    with Cons.prems obtain b where
      "globalEnv s (VarKey (gvId h)) = Some b" "b < mark (globalMem s)"
      "\<forall>c. gvInitializer h = Some c \<longrightarrow> (\<exists>v. evaluateConstant s c = Inr v)"
      by auto
    moreover have "evaluateConstant (s\<lparr>globalMem := mem\<rparr>) c = evaluateConstant s c" for c
      by (rule evaluateConstant_env) simp
    ultimately show "\<exists>a. globalEnv (s\<lparr>globalMem := mem\<rparr>) (VarKey (gvId h)) = Some a
        \<and> a < mark (globalMem (s\<lparr>globalMem := mem\<rparr>))
        \<and> (\<forall>c. gvInitializer h = Some c
              \<longrightarrow> (\<exists>v. evaluateConstant (s\<lparr>globalMem := mem\<rparr>) c = Inr v))"
      using that by simp
  qed
  show ?case
  proof (cases "gvInitializer g")
    case None
    with a next_ok [of "globalMem s"] show ?thesis by simp
  next
    case (Some init)
    with c obtain v where v: "evaluateConstant s init = Inr v" by auto
    from next_ok [of "(globalMem s)\<lparr>cells := (cells (globalMem s))(a \<mapsto> v)\<rparr>"]
    show ?thesis
      using a Some v by (simp add: writeMem_def)
  qed
qed

lemma first_initialization_resolved:
  assumes "evaluateGlobals m s = Inr s'"
    and "distinct (map gvId (globals m))"
    and "\<forall>g\<in>set (globals m). globalEnv s (VarKey (gvId g)) = None"
    and "\<forall>g\<in>set (globals m). 0 < gvSize m g"
    and "A \<in> set (globals m)" and "B \<in> set (globals m)"
    and "gvInitializer A = Some (GlobalAddr (VarKey (gvId B)))"
  shows "\<exists>a b. globalEnv s' (VarKey (gvId A)) = Some a
           \<and> globalEnv s' (VarKey (gvId B)) = Some b
           \<and> cells (globalMem s') a = Some (PointerValue b)"
proof -
  let ?gs = "globals m"
  from evaluateGlobals_stages [OF assms(1)] obtain s1 s2 where
    a: "allocateGlobals m ?gs (s\<lparr>globalMem := clear (globalMem s)\<rparr>) = Inr s1"
    and i: "initializeGlobals ?gs s1 = Inr s2"
    and f: "allocateFunctions m (functionList m) s2 = Inr s'"
    by blast
  note addr = first_initialization_addresses [OF a assms(2,3)]
  have env: "globalEnv s' (VarKey x) = globalEnv s1 (VarKey x)" for x
    using initializeGlobals_frame [OF i] allocateFunctions_frame [OF f] by simp
  have cellsEq: "cells (globalMem s') = cells (globalMem s2)"
    using allocateFunctions_frame [OF f] by simp
  note pos = assms(4)
  have inj: "inj_on (\<lambda>g. globalEnv s1 (VarKey (gvId g))) (set ?gs)"
  proof (rule inj_onI)
    fix g h
    assume g: "g \<in> set ?gs" and h: "h \<in> set ?gs"
      and eq: "globalEnv s1 (VarKey (gvId g)) = globalEnv s1 (VarKey (gvId h))"
    from g h obtain j k where jk: "j < length ?gs" "?gs ! j = g" "k < length ?gs" "?gs ! k = h"
      by (auto simp: in_set_conv_nth)
    with addr [of j] addr [of k] eq have
      e: "sum_list (map (gvSize m) (take j ?gs)) = sum_list (map (gvSize m) (take k ?gs))"
      by simp
    have "j = k"
    proof (rule ccontr)
      assume "j \<noteq> k"
      then consider "j < k" | "k < j" by linarith
      then show False
      proof cases
        case 1
        from sum_list_take_less [OF pos 1] jk(3) e show False by simp
      next
        case 2
        from sum_list_take_less [OF pos 2] jk(1) e show False by simp
      qed
    qed
    with jk show "g = h" by simp
  qed
  have dist: "distinct ?gs"
    using assms(2) by (simp add: distinct_map)
  from initializeGlobals_writes [OF i dist inj assms(5,7)] obtain av v where
    av: "globalEnv s1 (VarKey (gvId A)) = Some av"
    and v: "evaluateConstant s1 (GlobalAddr (VarKey (gvId B))) = Inr v"
    and c: "cells (globalMem s2) av = Some v"
    by blast
  from v obtain b where b: "globalEnv s1 (VarKey (gvId B)) = Some b" "v = PointerValue b"
    by (auto split: option.splits)
  from av b c env cellsEq show ?thesis
    by auto
qed

text \<open>In a first initialization (none of the module's globals is in \<open>globalEnv\<close> yet)
  of distinct globals whose initializers refer to globals of the module only, with a
  pointer size that is not zero: initialization succeeds, and a global initialized with
  the address of another holds that address afterwards, wherever the two are declared.\<close>

lemma first_initialization_succeeds:
  assumes "distinct (map gvId (globals m))"
    and "\<forall>g\<in>set (globals m). globalEnv s (VarKey (gvId g)) = None"
    and "\<forall>t. 0 < getTypeAllocSize m (PointerTy t)"
    and "\<forall>g\<in>set (globals m). \<forall>k. gvInitializer g = Some (GlobalAddr k)
           \<longrightarrow> k \<in> (\<lambda>h. VarKey (gvId h)) ` set (globals m)"
    and "A \<in> set (globals m)" and "B \<in> set (globals m)"
    and "gvInitializer A = Some (GlobalAddr (VarKey (gvId B)))"
  shows "\<exists>s' a b. evaluateGlobals m s = Inr s'
           \<and> globalEnv s' (VarKey (gvId A)) = Some a
           \<and> globalEnv s' (VarKey (gvId B)) = Some b
           \<and> cells (globalMem s') a = Some (PointerValue b)"
proof -
  let ?gs = "globals m"
  have pos: "\<forall>g\<in>set ?gs. 0 < gvSize m g"
    using assms(3) by (simp add: gvSize_def gvType_def)
  from allocateGlobals_succeeds obtain s1 where
    a: "allocateGlobals m ?gs (s\<lparr>globalMem := clear (globalMem s)\<rparr>) = Inr s1"
    by blast
  note addr = first_initialization_addresses [OF a assms(1,2)]
  have mk: "mark (globalMem s1) = sum_list (map (gvSize m) ?gs)"
    using allocateGlobals_frame [OF a] by (simp add: clear_def emptyMemory_def)
  have known: "\<exists>x. globalEnv s1 (VarKey (gvId g)) = Some x \<and> x < mark (globalMem s1)"
    if "g \<in> set ?gs" for g
  proof -
    from that obtain j where j: "j < length ?gs" "?gs ! j = g"
      by (auto simp: in_set_conv_nth)
    from sum_list_take_less [OF pos j(1)]
    have "sum_list (map (gvSize m) (take j ?gs)) < mark (globalMem s1)"
      by (simp add: mk)
    with addr [OF j(1)] j(2) show ?thesis
      by simp
  qed
  have "\<forall>g\<in>set ?gs. \<exists>x. globalEnv s1 (VarKey (gvId g)) = Some x \<and> x < mark (globalMem s1)
          \<and> (\<forall>c. gvInitializer g = Some c \<longrightarrow> (\<exists>v. evaluateConstant s1 c = Inr v))"
  proof
    fix g assume g: "g \<in> set ?gs"
    have "\<exists>v. evaluateConstant s1 c = Inr v" if c: "gvInitializer g = Some c" for c
    proof (cases c)
      case (GlobalAddr k)
      with assms(4) g c obtain h where "h \<in> set ?gs" "k = VarKey (gvId h)"
        by blast
      with known [of h] GlobalAddr show ?thesis
        by auto
    qed simp_all
    with known [OF g] show "\<exists>x. globalEnv s1 (VarKey (gvId g)) = Some x
          \<and> x < mark (globalMem s1)
          \<and> (\<forall>c. gvInitializer g = Some c \<longrightarrow> (\<exists>v. evaluateConstant s1 c = Inr v))"
      by blast
  qed
  from initializeGlobals_succeeds [OF this] obtain s2 where
    i: "initializeGlobals ?gs s1 = Inr s2" ..
  from allocateFunctions_succeeds obtain s' where
    f: "allocateFunctions m (functionList m) s2 = Inr s'" ..
  from a i f have ok: "evaluateGlobals m s = Inr s'"
    by (simp add: evaluateGlobals_def)
  from first_initialization_resolved [OF ok assms(1,2) pos assms(5,6,7)] ok show ?thesis
    by blast
qed

text \<open>
  C5 does not hold when the program is initialized again. The first loop of
  \<open>evaluateGlobals\<close> allocates an address for every global before the second
  evaluates an initializer, but \<open>insert\<close> does not record it for a global that
  \<open>globalEnv\<close> already holds. After an initialization of \<open>backwardModule\<close> and one
  of \<open>forwardModule\<close>, the initializer of \<open>globalA\<close> has read the address that
  \<open>globalB\<close> had in the first call, not the one allocated in the second, and the
  storage recorded for \<open>globalA\<close> holds the value of \<open>globalN\<close>. Initialized from
  an empty state, both modules leave the address of \<open>globalB\<close> in the storage of
  \<open>globalA\<close>.
\<close>

theorem reinitialization_reads_stale_address:
  "\<exists>s1 s2 sf. evaluateGlobals backwardModule emptyInterpreter = Inr s1
     \<and> globalEnv s1 (VarKey (gvId globalB)) = Some 0
     \<and> globalEnv s1 (VarKey (gvId globalA)) = Some 8
     \<and> cells (globalMem s1) 8 = Some (PointerValue 0)
     \<and> evaluateGlobals forwardModule s1 = Inr s2
     \<and> globalEnv s2 (VarKey (gvId globalA)) = Some 8
     \<and> globalEnv s2 (VarKey (gvId globalN)) = Some 8
     \<and> globalEnv s2 (VarKey (gvId globalB)) = Some 0
     \<and> cells (globalMem s2) 8 = Some (IntValue 7)
     \<and> cells (globalMem s2) 0 = Some (IntValue 42)
     \<and> evaluateGlobals forwardModule emptyInterpreter = Inr sf
     \<and> globalEnv sf (VarKey (gvId globalA)) = Some 0
     \<and> globalEnv sf (VarKey (gvId globalN)) = Some 8
     \<and> globalEnv sf (VarKey (gvId globalB)) = Some 16
     \<and> cells (globalMem sf) 0 = Some (PointerValue 16)"
  by (simp add: init_simps backwardModule_def forwardModule_def globalA_def globalB_def
      globalN_def)

end
